theory Spec2Isabelle
  imports Main "HOL-Library.Word"
begin

section \<open>Data model of \<^verbatim>\<open>cpp_solver/solver.cpp\<close>\<close>

text \<open>
  The three structs of the source. A field called \<^verbatim>\<open>id\<close> would hide the identity
  function of HOL, so the two \<^verbatim>\<open>id\<close> fields carry the struct's name as a suffix.
  The \<^verbatim>\<open>int\<close> fields are integers; no arithmetic of the source on them leaves the
  range of a 32-bit \<^verbatim>\<open>int\<close> (loop counters stay below \<^verbatim>\<open>rows\<close> and \<^verbatim>\<open>cols\<close>).
\<close>

record Student =
  id_student :: int
  exam :: string

record Room =
  id_room :: string
  rows :: int
  cols :: int
  skip_rows :: bool
  skip_cols :: bool

record Assignment =
  student_id :: int
  room_id :: string
  row :: int
  col :: int

type_synonym position = "int \<times> int"

section \<open>Position precompute\<close>

text \<open>
  The remainder operator of C++ truncates towards zero; \<open>rem_cpp a b\<close> is \<^verbatim>\<open>a % b\<close>
  for \<open>b \<noteq> 0\<close>.
\<close>

definition rem_cpp :: "int \<Rightarrow> int \<Rightarrow> int" where
  "rem_cpp a b = sgn a * (\<bar>a\<bar> mod \<bar>b\<bar>)"

text \<open>
  The inner loop of \<^verbatim>\<open>precompute_positions\<close>:
  \<^verbatim>\<open>for (int c = 0; c < room.cols; c++) { if (room.skip_cols && c % 2 != 0) continue;
  positions.push_back({r, c}); }\<close>, started at column \<open>c\<close>.
\<close>

function col_loop :: "Room \<Rightarrow> int \<Rightarrow> int \<Rightarrow> position list \<Rightarrow> position list" where
  "col_loop room r c positions =
     (if c < cols room then
        (if skip_cols room \<and> rem_cpp c 2 \<noteq> 0 then col_loop room r (c + 1) positions
         else col_loop room r (c + 1) (positions @ [(r, c)]))
      else positions)"
  by pat_completeness auto
termination
  by (relation "measure (\<lambda>(room, r, c, positions). nat (cols room - c))") auto

text \<open>
  The outer loop:
  \<^verbatim>\<open>for (int r = 0; r < room.rows; r++) { if (room.skip_rows && r % 2 != 0) continue; ... }\<close>.
\<close>

function row_loop :: "Room \<Rightarrow> int \<Rightarrow> position list \<Rightarrow> position list" where
  "row_loop room r positions =
     (if r < rows room then
        (if skip_rows room \<and> rem_cpp r 2 \<noteq> 0 then row_loop room (r + 1) positions
         else row_loop room (r + 1) (col_loop room r 0 positions))
      else positions)"
  by pat_completeness auto
termination
  by (relation "measure (\<lambda>(room, r, positions). nat (rows room - r))") auto

text \<open>The body of the loop over rooms: the position list of one room.\<close>

definition room_positions_of :: "Room \<Rightarrow> position list" where
  "room_positions_of room = row_loop room 0 []"

text \<open>
  What the source writes to \<^verbatim>\<open>std::cout\<close>, one constructor per output statement, with
  the values it prints. The solve time in milliseconds is wall-clock time and is left
  out of \<open>SolverCompleted\<close>.
\<close>

datatype CpSolverStatus = UNKNOWN | MODEL_INVALID | FEASIBLE | INFEASIBLE | OPTIMAL

datatype log_line =
    StartingWith nat nat
  | RoomPositions string nat
  | TotalCapacity int nat
  | NotEnoughCapacity
  | CreatedVariables int
  | AddedSeparation int
  | StartingSolver
  | SolverCompleted
  | Status CpSolverStatus
  | AssignedStudents nat

text \<open>
  \<^verbatim>\<open>precompute_positions\<close>: one position list per room, in the order of the rooms,
  and one output line per room.
\<close>

fun precompute_loop ::
  "Room list \<Rightarrow> position list list \<times> log_line list \<Rightarrow> position list list \<times> log_line list"
where
  "precompute_loop [] st = st"
| "precompute_loop (room # rest) (room_positions, out) =
     (let positions = room_positions_of room
      in precompute_loop rest
           (room_positions @ [positions],
            out @ [RoomPositions (id_room room) (length positions)]))"

definition precompute_positions :: "Room list \<Rightarrow> position list list \<times> log_line list" where
  "precompute_positions rooms = precompute_loop rooms ([], [])"

text \<open>\<^verbatim>\<open>is_adjacent\<close>: Manhattan distance exactly 1.\<close>

definition is_adjacent :: "position \<Rightarrow> position \<Rightarrow> bool" where
  "is_adjacent pos1 pos2 \<longleftrightarrow> \<bar>fst pos1 - fst pos2\<bar> + \<bar>snd pos1 - snd pos2\<bar> = 1"

text \<open>The usable positions as the specification words them.\<close>

definition usable :: "Room \<Rightarrow> position \<Rightarrow> bool" where
  "usable room p \<longleftrightarrow>
     (\<not> skip_rows room \<or> fst p mod 2 = 0) \<and> (\<not> skip_cols room \<or> snd p mod 2 = 0)"

definition row_major :: "position \<Rightarrow> position \<Rightarrow> bool" where
  "row_major p q \<longleftrightarrow> fst p < fst q \<or> (fst p = fst q \<and> snd p < snd q)"

section \<open>The CP-SAT model builder and the solver's response\<close>

text \<open>
  OR-tools is an external library. What \<^verbatim>\<open>solve\<close> does with it is to create Boolean
  variables, to add linear constraints over them, to set an objective, to hand the model
  to \<^verbatim>\<open>CpSolver::Solve\<close> and to read Boolean values out of the response. A variable is
  its index in the model; the builder is the state that the calls update.
\<close>

type_synonym BoolVar = nat

datatype LinearExpr = Sum "BoolVar list" | Var BoolVar | Const int

datatype Constraint = Equality LinearExpr LinearExpr | LessOrEqual LinearExpr LinearExpr

record CpModelBuilder =
  num_vars :: nat
  constraints :: "Constraint list"
  objective :: "LinearExpr option"

definition empty_model :: CpModelBuilder where
  "empty_model = \<lparr>num_vars = 0, constraints = [], objective = None\<rparr>"

definition NewBoolVar :: "CpModelBuilder \<Rightarrow> BoolVar \<times> CpModelBuilder" where
  "NewBoolVar cp = (num_vars cp, cp\<lparr>num_vars := Suc (num_vars cp)\<rparr>)"

definition AddEquality :: "LinearExpr \<Rightarrow> LinearExpr \<Rightarrow> CpModelBuilder \<Rightarrow> CpModelBuilder" where
  "AddEquality l r cp = cp\<lparr>constraints := constraints cp @ [Equality l r]\<rparr>"

definition AddLessOrEqual :: "LinearExpr \<Rightarrow> LinearExpr \<Rightarrow> CpModelBuilder \<Rightarrow> CpModelBuilder" where
  "AddLessOrEqual l r cp = cp\<lparr>constraints := constraints cp @ [LessOrEqual l r]\<rparr>"

definition Minimize :: "LinearExpr \<Rightarrow> CpModelBuilder \<Rightarrow> CpModelBuilder" where
  "Minimize e cp = cp\<lparr>objective := Some e\<rparr>"

record SatParameters =
  max_time_in_seconds :: int
  num_search_workers :: nat
  portfolio_search :: bool
  cp_model_presolve :: bool

record CpSolverResponse =
  status :: CpSolverStatus
  solution :: "BoolVar \<Rightarrow> bool"

definition SolutionBooleanValue :: "CpSolverResponse \<Rightarrow> BoolVar \<Rightarrow> bool" where
  "SolutionBooleanValue response v = solution response v"

text \<open>
  The meaning of a model: the value of a linear expression under a truth assignment,
  when a constraint holds, and when an assignment is a solution of the model. A response
  of OR-tools with status \<open>OPTIMAL\<close> or \<open>FEASIBLE\<close> carries a solution of the model.
\<close>

fun expr_value :: "(BoolVar \<Rightarrow> bool) \<Rightarrow> LinearExpr \<Rightarrow> int" where
  "expr_value v (Sum vs) = sum_list (map (\<lambda>i. if v i then 1 else 0) vs)"
| "expr_value v (Var i) = (if v i then 1 else 0)"
| "expr_value v (Const n) = n"

fun holds :: "(BoolVar \<Rightarrow> bool) \<Rightarrow> Constraint \<Rightarrow> bool" where
  "holds v (Equality l r) \<longleftrightarrow> expr_value v l = expr_value v r"
| "holds v (LessOrEqual l r) \<longleftrightarrow> expr_value v l \<le> expr_value v r"

definition solution_of :: "CpModelBuilder \<Rightarrow> (BoolVar \<Rightarrow> bool) \<Rightarrow> bool" where
  "solution_of cp v \<longleftrightarrow> list_all (holds v) (constraints cp)"

definition objective_value :: "CpModelBuilder \<Rightarrow> (BoolVar \<Rightarrow> bool) \<Rightarrow> int" where
  "objective_value cp v = (case objective cp of None \<Rightarrow> 0 | Some e \<Rightarrow> expr_value v e)"

section \<open>The containers of \<^verbatim>\<open>solve\<close>\<close>

text \<open>
  \<^verbatim>\<open>std::to_string\<close> on the integers that occur in a key: the decimal digits, most
  significant first, after a minus sign for a negative number.
\<close>

definition digit_chars :: string where
  "digit_chars = ''0123456789''"

function to_string_nat :: "nat \<Rightarrow> string" where
  "to_string_nat n =
     (if n < 10 then [digit_chars ! n]
      else to_string_nat (n div 10) @ [digit_chars ! (n mod 10)])"
  by pat_completeness auto
termination
  by (relation "measure id") auto

declare to_string_nat.simps [simp del]

definition to_string :: "int \<Rightarrow> string" where
  "to_string i = (if i < 0 then CHR ''-'' # to_string_nat (nat (- i)) else to_string_nat (nat i))"

text \<open>
  The key of a decision variable:
  \<^verbatim>\<open>to_string(student.id) + "_" + to_string(ki) + "_" + to_string(pos.first) + "_" +
  to_string(pos.second)\<close>.
\<close>

type_synonym var_key = string

definition var_key :: "int \<Rightarrow> nat \<Rightarrow> position \<Rightarrow> var_key" where
  "var_key sid ki pos =
     to_string sid @ ''_'' @ to_string (int ki) @ ''_'' @ to_string (fst pos) @ ''_'' @
     to_string (snd pos)"

type_synonym var_map = "var_key \<rightharpoonup> BoolVar"

text \<open>
  \<^verbatim>\<open>exam_to_students\<close> is a \<^verbatim>\<open>std::unordered_map\<close> from an exam to the vector of
  its students' ids. Its entries are kept in the order of insertion;
  \<^verbatim>\<open>exam_to_students[e].push_back(id)\<close> appends to the vector of an existing key and
  inserts a new key otherwise.
\<close>

type_synonym exam_groups = "(string \<times> int list) list"

fun push_back_exam :: "string \<Rightarrow> int \<Rightarrow> exam_groups \<Rightarrow> exam_groups" where
  "push_back_exam e sid [] = [(e, [sid])]"
| "push_back_exam e sid ((k, ids) # rest) =
     (if k = e then (k, ids @ [sid]) # rest else (k, ids) # push_back_exam e sid rest)"

text \<open>
  A loop \<^verbatim>\<open>for (size_t i = a; i < b && cond; i++) body\<close> over the indices \<open>[a..<b]\<close>:
  the condition is tested before every round and ends the loop when it fails.
\<close>

fun for_while :: "('s \<Rightarrow> bool) \<Rightarrow> ('a \<Rightarrow> 's \<Rightarrow> 's) \<Rightarrow> 'a list \<Rightarrow> 's \<Rightarrow> 's" where
  "for_while cond body [] st = st"
| "for_while cond body (i # rest) st =
     (if cond st then for_while cond body rest (body i st) else st)"

section \<open>\<^verbatim>\<open>FastSeatingOptimizer::solve\<close>\<close>

subsection \<open>Capacity\<close>

text \<open>
  \<^verbatim>\<open>int total_capacity = 0; for (...) total_capacity += positions.size();\<close> The sum is
  an \<^verbatim>\<open>int\<close>: the size is added modulo \<open>2 ^ 32\<close> and read as a signed value.
\<close>

definition total_capacity_of :: "position list list \<Rightarrow> 32 word" where
  "total_capacity_of room_positions =
     fold (\<lambda>positions total_capacity. total_capacity + of_nat (length positions))
       room_positions 0"

text \<open>\<^verbatim>\<open>total_capacity < static_cast<int>(students.size())\<close>\<close>

definition not_enough_capacity :: "32 word \<Rightarrow> Student list \<Rightarrow> bool" where
  "not_enough_capacity total_capacity students \<longleftrightarrow>
     sint total_capacity < sint (of_nat (length students) :: 32 word)"

subsection \<open>Exam groupings\<close>

definition exam_groupings :: "Student list \<Rightarrow> exam_groups \<times> (int \<rightharpoonup> string)" where
  "exam_groupings students =
     fold (\<lambda>student (exam_to_students, exam_of).
             (push_back_exam (exam student) (id_student student) exam_to_students,
              exam_of(id_student student \<mapsto> exam student)))
       students ([], Map.empty)"

subsection \<open>Variables\<close>

definition create_room_usage_vars :: "nat \<Rightarrow> CpModelBuilder \<Rightarrow> BoolVar list \<times> CpModelBuilder" where
  "create_room_usage_vars n cp =
     fold (\<lambda>ki (y, cp). let (v, cp') = NewBoolVar cp in (y @ [v], cp')) [0..<n] ([], cp)"

text \<open>
  The restriction check of the variable loop: a room is skipped when the exam has an
  entry in \<^verbatim>\<open>restrictions\<close> and \<^verbatim>\<open>std::find\<close> does not find the room's id in it.
\<close>

definition room_allowed :: "(string \<rightharpoonup> string list) \<Rightarrow> string \<Rightarrow> string \<Rightarrow> bool" where
  "room_allowed restrictions e rid =
     (case restrictions e of None \<Rightarrow> True | Some allowed_rooms \<Rightarrow> List.member allowed_rooms rid)"

definition create_position_vars ::
  "int \<Rightarrow> nat \<Rightarrow> position list \<Rightarrow> CpModelBuilder \<times> var_map \<times> int \<Rightarrow> CpModelBuilder \<times> var_map \<times> int"
where
  "create_position_vars sid ki positions =
     fold (\<lambda>pos (cp, x, variable_count).
             let (v, cp') = NewBoolVar cp
             in (cp', x(var_key sid ki pos \<mapsto> v), variable_count + 1))
       positions"

definition create_student_vars ::
  "(string \<rightharpoonup> string list) \<Rightarrow> Room list \<Rightarrow> position list list \<Rightarrow> Student \<Rightarrow>
   CpModelBuilder \<times> var_map \<times> int \<Rightarrow> CpModelBuilder \<times> var_map \<times> int"
where
  "create_student_vars restrictions rooms room_positions student =
     fold (\<lambda>ki st.
             if room_allowed restrictions (exam student) (id_room (rooms ! ki))
             then create_position_vars (id_student student) ki (room_positions ! ki) st
             else st)
       [0..<length rooms]"

definition create_assignment_vars ::
  "(string \<rightharpoonup> string list) \<Rightarrow> Room list \<Rightarrow> position list list \<Rightarrow> Student list \<Rightarrow>
   CpModelBuilder \<times> var_map \<times> int \<Rightarrow> CpModelBuilder \<times> var_map \<times> int"
where
  "create_assignment_vars restrictions rooms room_positions students =
     fold (create_student_vars restrictions rooms room_positions) students"

subsection \<open>Constraint 1: each student sits exactly once\<close>

definition student_vars_of :: "var_map \<Rightarrow> nat \<Rightarrow> position list list \<Rightarrow> Student \<Rightarrow> BoolVar list" where
  "student_vars_of x n room_positions student =
     fold (\<lambda>ki. fold (\<lambda>pos student_vars.
                    case x (var_key (id_student student) ki pos) of
                      Some v \<Rightarrow> student_vars @ [v]
                    | None \<Rightarrow> student_vars)
                  (room_positions ! ki))
       [0..<n] []"

definition student_constraint ::
  "var_map \<Rightarrow> nat \<Rightarrow> position list list \<Rightarrow> Student \<Rightarrow> CpModelBuilder \<Rightarrow> CpModelBuilder"
where
  "student_constraint x n room_positions student cp =
     (let student_vars = student_vars_of x n room_positions student
      in if student_vars \<noteq> [] then AddEquality (Sum student_vars) (Const 1) cp else cp)"

definition constraint1 ::
  "var_map \<Rightarrow> nat \<Rightarrow> position list list \<Rightarrow> Student list \<Rightarrow> CpModelBuilder \<Rightarrow> CpModelBuilder"
where
  "constraint1 x n room_positions students = fold (student_constraint x n room_positions) students"

subsection \<open>Constraint 2: no double booking, room usage linking\<close>

definition seat_students ::
  "var_map \<Rightarrow> BoolVar list \<Rightarrow> nat \<Rightarrow> position \<Rightarrow> Student list \<Rightarrow> CpModelBuilder \<Rightarrow>
   BoolVar list \<times> CpModelBuilder"
where
  "seat_students x y ki pos students cp =
     fold (\<lambda>student (seat_vars, cp).
             case x (var_key (id_student student) ki pos) of
               Some v \<Rightarrow> (seat_vars @ [v], AddLessOrEqual (Var v) (Var (y ! ki)) cp)
             | None \<Rightarrow> (seat_vars, cp))
       students ([], cp)"

definition seat_constraint ::
  "var_map \<Rightarrow> BoolVar list \<Rightarrow> Student list \<Rightarrow> nat \<Rightarrow> position \<Rightarrow> CpModelBuilder \<Rightarrow> CpModelBuilder"
where
  "seat_constraint x y students ki pos cp =
     (let (seat_vars, cp') = seat_students x y ki pos students cp
      in if seat_vars \<noteq> [] then AddLessOrEqual (Sum seat_vars) (Const 1) cp' else cp')"

definition constraint2 ::
  "var_map \<Rightarrow> BoolVar list \<Rightarrow> Student list \<Rightarrow> nat \<Rightarrow> position list list \<Rightarrow>
   CpModelBuilder \<Rightarrow> CpModelBuilder"
where
  "constraint2 x y students n room_positions =
     fold (\<lambda>ki. fold (seat_constraint x y students ki) (room_positions ! ki)) [0..<n]"

subsection \<open>Constraint 3: separation\<close>

definition MAX_SEPARATION_CONSTRAINTS :: int where
  "MAX_SEPARATION_CONSTRAINTS = 50000"

text \<open>The state of the separation loops: the builder and \<^verbatim>\<open>separation_count\<close>.\<close>

definition below_cap :: "CpModelBuilder \<times> int \<Rightarrow> bool" where
  "below_cap st \<longleftrightarrow> snd st < MAX_SEPARATION_CONSTRAINTS"

text \<open>
  The body of the innermost loop: the constraint on the earlier student \<open>studs ! si\<close> at
  the earlier position and the later student \<open>studs ! sj\<close> at the later position, when
  both variables exist.
\<close>

definition separation_pair ::
  "var_map \<Rightarrow> nat \<Rightarrow> position \<Rightarrow> position \<Rightarrow> int list \<Rightarrow> nat \<Rightarrow> nat \<Rightarrow>
   CpModelBuilder \<times> int \<Rightarrow> CpModelBuilder \<times> int"
where
  "separation_pair x ki pos_i pos_j studs si sj st =
     (case (x (var_key (studs ! si) ki pos_i), x (var_key (studs ! sj) ki pos_j)) of
        (Some var1, Some var2) \<Rightarrow>
          (AddLessOrEqual (Sum [var1, var2]) (Const 1) (fst st), snd st + 1)
      | _ \<Rightarrow> st)"

definition student_pairs ::
  "var_map \<Rightarrow> nat \<Rightarrow> position \<Rightarrow> position \<Rightarrow> int list \<Rightarrow>
   CpModelBuilder \<times> int \<Rightarrow> CpModelBuilder \<times> int"
where
  "student_pairs x ki pos_i pos_j studs =
     for_while below_cap
       (\<lambda>si. for_while below_cap (separation_pair x ki pos_i pos_j studs si)
                [si + 1..<length studs])
       [0..<length studs]"

definition position_pair ::
  "var_map \<Rightarrow> nat \<Rightarrow> position list \<Rightarrow> int list \<Rightarrow> nat \<Rightarrow> nat \<Rightarrow>
   CpModelBuilder \<times> int \<Rightarrow> CpModelBuilder \<times> int"
where
  "position_pair x ki positions studs i j st =
     (if \<not> is_adjacent (positions ! i) (positions ! j) then st
      else student_pairs x ki (positions ! i) (positions ! j) studs st)"

definition position_pairs ::
  "var_map \<Rightarrow> nat \<Rightarrow> position list \<Rightarrow> int list \<Rightarrow>
   CpModelBuilder \<times> int \<Rightarrow> CpModelBuilder \<times> int"
where
  "position_pairs x ki positions studs =
     for_while below_cap
       (\<lambda>i. for_while below_cap (position_pair x ki positions studs i)
               [i + 1..<length positions])
       [0..<length positions]"

definition exam_group_constraints ::
  "var_map \<Rightarrow> nat \<Rightarrow> position list list \<Rightarrow> string \<times> int list \<Rightarrow>
   CpModelBuilder \<times> int \<Rightarrow> CpModelBuilder \<times> int"
where
  "exam_group_constraints x n room_positions exam_group st =
     (if length (snd exam_group) < 2 then st
      else fold (\<lambda>ki. position_pairs x ki (room_positions ! ki) (snd exam_group)) [0..<n] st)"

text \<open>
  The loop over \<^verbatim>\<open>exam_to_students\<close> visits the entries in the order in which the
  \<^verbatim>\<open>std::unordered_map\<close> iterates, which the language leaves to the standard library
  (it depends on the hash values and bucket layout). That order is the parameter
  \<open>bucket_order\<close>: it maps the entries in insertion order to the order of iteration.
\<close>

definition constraint3 ::
  "(exam_groups \<Rightarrow> exam_groups) \<Rightarrow> var_map \<Rightarrow> nat \<Rightarrow> position list list \<Rightarrow> exam_groups \<Rightarrow>
   CpModelBuilder \<Rightarrow> CpModelBuilder \<times> int"
where
  "constraint3 bucket_order x n room_positions exam_to_students cp =
     fold (exam_group_constraints x n room_positions) (bucket_order exam_to_students) (cp, 0)"

subsection \<open>Model building\<close>

text \<open>
  What the model-building part of \<^verbatim>\<open>solve\<close> leaves behind: the model, the map \<^verbatim>\<open>x\<close>
  from keys to assignment variables, the room usage variables \<^verbatim>\<open>y\<close>, and the two
  counters \<^verbatim>\<open>variable_count\<close> and \<^verbatim>\<open>separation_count\<close>, which are only printed.
\<close>

record built =
  model :: CpModelBuilder
  x_vars :: var_map
  y_vars :: "BoolVar list"
  variable_count :: int
  separation_count :: int

definition build_model ::
  "(exam_groups \<Rightarrow> exam_groups) \<Rightarrow> Student list \<Rightarrow> Room list \<Rightarrow> (string \<rightharpoonup> string list) \<Rightarrow>
   position list list \<Rightarrow> built"
where
  "build_model bucket_order students rooms restrictions room_positions =
     (let (exam_to_students, exam_of) = exam_groupings students;
          (y, cp1) = create_room_usage_vars (length rooms) empty_model;
          (cp2, x, variable_count) =
             create_assignment_vars restrictions rooms room_positions students
               (cp1, Map.empty, 0);
          cp3 = constraint1 x (length rooms) room_positions students cp2;
          cp4 = constraint2 x y students (length rooms) room_positions cp3;
          (cp5, separation_count) =
             constraint3 bucket_order x (length rooms) room_positions exam_to_students cp4;
          cp6 = Minimize (Sum y) cp5
      in \<lparr>model = cp6, x_vars = x, y_vars = y, variable_count = variable_count,
          separation_count = separation_count\<rparr>)"

subsection \<open>Result extraction\<close>

text \<open>
  The loop over the positions of one room: the first position whose variable exists and
  is true in the response gives an assignment, and \<^verbatim>\<open>break\<close> leaves the loop.
\<close>

fun scan_positions ::
  "CpSolverResponse \<Rightarrow> var_map \<Rightarrow> Student \<Rightarrow> Room list \<Rightarrow> nat \<Rightarrow> position list \<Rightarrow>
   Assignment list \<Rightarrow> Assignment list"
where
  "scan_positions response x student rooms ki [] assignments = assignments"
| "scan_positions response x student rooms ki (pos # rest) assignments =
     (if (case x (var_key (id_student student) ki pos) of
            Some v \<Rightarrow> SolutionBooleanValue response v
          | None \<Rightarrow> False)
      then assignments @
             [\<lparr>student_id = id_student student, room_id = id_room (rooms ! ki),
               row = fst pos, col = snd pos\<rparr>]
      else scan_positions response x student rooms ki rest assignments)"

definition extract_results ::
  "CpSolverResponse \<Rightarrow> var_map \<Rightarrow> Student list \<Rightarrow> Room list \<Rightarrow> position list list \<Rightarrow>
   Assignment list"
where
  "extract_results response x students rooms room_positions =
     fold (\<lambda>student.
             fold (\<lambda>ki. scan_positions response x student rooms ki (room_positions ! ki))
               [0..<length rooms])
       students []"

subsection \<open>The whole call\<close>

text \<open>
  What a call of \<^verbatim>\<open>solve\<close> does: the vector it returns, the lines it prints, and the
  model it hands to \<^verbatim>\<open>solver.Solve\<close> (\<open>None\<close> when it returns before that call).
  The solver is a parameter: it maps the parameters set by \<^verbatim>\<open>solve\<close> and the built
  model to a response.
\<close>

record solve_result =
  returned :: "Assignment list"
  printed :: "log_line list"
  solved :: "CpModelBuilder option"

definition solver_parameters :: "int \<Rightarrow> SatParameters" where
  "solver_parameters timeout_seconds =
     \<lparr>max_time_in_seconds = timeout_seconds, num_search_workers = 4,
      portfolio_search = True, cp_model_presolve = True\<rparr>"

definition solve ::
  "(exam_groups \<Rightarrow> exam_groups) \<Rightarrow> (SatParameters \<Rightarrow> CpModelBuilder \<Rightarrow> CpSolverResponse) \<Rightarrow>
   Student list \<Rightarrow> Room list \<Rightarrow> (string \<rightharpoonup> string list) \<Rightarrow> int \<Rightarrow> solve_result"
where
  "solve bucket_order solver students rooms restrictions timeout_seconds =
     (let out0 = [StartingWith (length students) (length rooms)];
          (room_positions, out1) = precompute_positions rooms;
          total_capacity = total_capacity_of room_positions;
          out2 = out0 @ out1 @ [TotalCapacity (sint total_capacity) (length students)]
      in if not_enough_capacity total_capacity students
         then \<lparr>returned = [], printed = out2 @ [NotEnoughCapacity], solved = None\<rparr>
         else
           let b = build_model bucket_order students rooms restrictions room_positions;
               out3 = out2 @ [CreatedVariables (variable_count b),
                              AddedSeparation (separation_count b), StartingSolver];
               response = solver (solver_parameters timeout_seconds) (model b);
               out4 = out3 @ [SolverCompleted, Status (status response)]
           in if status response = OPTIMAL \<or> status response = FEASIBLE
              then
                let assignments =
                      extract_results response (x_vars b) students rooms room_positions
                in \<lparr>returned = assignments,
                    printed = out4 @ [AssignedStudents (length assignments)],
                    solved = Some (model b)\<rparr>
              else \<lparr>returned = [], printed = out4, solved = Some (model b)\<rparr>)"

section \<open>Notions used to state the properties\<close>

text \<open>
  The decision variable of student id \<open>sid\<close> at position \<open>pos\<close> of room \<open>ki\<close> exists
  and is true in the response: the test of the extraction loop.
\<close>

definition var_true :: "CpSolverResponse \<Rightarrow> var_map \<Rightarrow> int \<Rightarrow> nat \<Rightarrow> position \<Rightarrow> bool" where
  "var_true response x sid ki pos =
     (case x (var_key sid ki pos) of Some v \<Rightarrow> solution response v | None \<Rightarrow> False)"

text \<open>The record that \<^verbatim>\<open>assignments.emplace_back\<close> builds.\<close>

definition seat :: "Student \<Rightarrow> Room list \<Rightarrow> nat \<Rightarrow> position \<Rightarrow> Assignment" where
  "seat student rooms ki pos =
     \<lparr>student_id = id_student student, room_id = id_room (rooms ! ki),
      row = fst pos, col = snd pos\<rparr>"

text \<open>
  The assignments that the extraction emits for one student: the two inner loops of
  the extraction, started on an empty vector.
\<close>

definition student_assignments ::
  "CpSolverResponse \<Rightarrow> var_map \<Rightarrow> Room list \<Rightarrow> position list list \<Rightarrow> Student \<Rightarrow> Assignment list"
where
  "student_assignments response x rooms room_positions student =
     fold (\<lambda>ki. scan_positions response x student rooms ki (room_positions ! ki))
       [0..<length rooms] []"

text \<open>The usable-seat capacity of the rooms, as a natural number.\<close>

definition capacity :: "Room list \<Rightarrow> nat" where
  "capacity rooms = sum_list (map (\<lambda>room. length (room_positions_of room)) rooms)"

text \<open>The model that \<^verbatim>\<open>solve\<close> builds for an input, and the variables it creates.\<close>

definition built_for ::
  "(exam_groups \<Rightarrow> exam_groups) \<Rightarrow> Student list \<Rightarrow> Room list \<Rightarrow> (string \<rightharpoonup> string list) \<Rightarrow> built"
where
  "built_for bucket_order students rooms restrictions =
     build_model bucket_order students rooms restrictions (fst (precompute_positions rooms))"

text \<open>A solver that answers every model with the same response.\<close>

definition answering :: "CpSolverResponse \<Rightarrow> SatParameters \<Rightarrow> CpModelBuilder \<Rightarrow> CpSolverResponse" where
  "answering response params cp = response"

text \<open>
  The seats that the extraction reads off a response: students in input order, for each
  student the rooms in ascending index order, and for each room at most one seat, the
  first position of the room's precomputed list whose variable is true.
\<close>

definition first_true_seats ::
  "CpSolverResponse \<Rightarrow> var_map \<Rightarrow> Student list \<Rightarrow> Room list \<Rightarrow> position list list \<Rightarrow>
   Assignment list"
where
  "first_true_seats response x students rooms room_positions =
     concat (map (\<lambda>student.
       concat (map (\<lambda>ki.
         case find (var_true response x (id_student student) ki) (room_positions ! ki) of
           None \<Rightarrow> []
         | Some pos \<Rightarrow> [seat student rooms ki pos])
       [0..<length rooms]))
     students)"

text \<open>
  The number of decision variables of a student id that are true in a response, and the
  rooms in which the id has a true variable.
\<close>

definition true_count ::
  "CpSolverResponse \<Rightarrow> var_map \<Rightarrow> Room list \<Rightarrow> position list list \<Rightarrow> int \<Rightarrow> nat"
where
  "true_count response x rooms room_positions sid =
     sum_list (map (\<lambda>ki. length (filter (var_true response x sid ki) (room_positions ! ki)))
       [0..<length rooms])"

definition true_rooms ::
  "CpSolverResponse \<Rightarrow> var_map \<Rightarrow> Room list \<Rightarrow> position list list \<Rightarrow> int \<Rightarrow> nat list"
where
  "true_rooms response x rooms room_positions sid =
     filter (\<lambda>ki. filter (var_true response x sid ki) (room_positions ! ki) \<noteq> [])
       [0..<length rooms]"

text \<open>
  The capacity of the rooms listed for a restricted exam and the number of students of
  an exam, as the specification's feasibility check words them.
\<close>

definition restricted_capacity :: "Room list \<Rightarrow> string list \<Rightarrow> nat" where
  "restricted_capacity rooms allowed_rooms =
     sum_list (map (\<lambda>room. length (room_positions_of room))
       (filter (\<lambda>room. id_room room \<in> set allowed_rooms) rooms))"

definition exam_size :: "Student list \<Rightarrow> string \<Rightarrow> nat" where
  "exam_size students e = length (filter (\<lambda>student. exam student = e) students)"

text \<open>
  The keys for which the variable loop creates a decision variable: a student of the
  input, a room index whose room passes the restriction check, a precomputed position.
\<close>

definition created_keys ::
  "(string \<rightharpoonup> string list) \<Rightarrow> Room list \<Rightarrow> position list list \<Rightarrow> Student list \<Rightarrow> var_key set"
where
  "created_keys restrictions rooms room_positions students =
     {var_key (id_student student) ki pos | student ki pos.
        student \<in> set students \<and> ki < length rooms
        \<and> room_allowed restrictions (exam student) (id_room (rooms ! ki))
        \<and> pos \<in> set (room_positions ! ki)}"

text \<open>
  The separation constraints in the order of the loops when nothing stops them: for a
  pair of positions the pairs of students \<open>si < sj\<close> whose two variables exist, for a
  room the adjacent pairs of positions \<open>i < j\<close>, for an exam group of at least two
  students the rooms in ascending index order, and the exam groups in the order given.
\<close>

definition pair_candidates ::
  "var_map \<Rightarrow> nat \<Rightarrow> position \<Rightarrow> position \<Rightarrow> int list \<Rightarrow> Constraint list"
where
  "pair_candidates x ki pos_i pos_j studs =
     concat (map (\<lambda>si.
       concat (map (\<lambda>sj.
         case (x (var_key (studs ! si) ki pos_i), x (var_key (studs ! sj) ki pos_j)) of
           (Some var1, Some var2) \<Rightarrow> [LessOrEqual (Sum [var1, var2]) (Const 1)]
         | _ \<Rightarrow> [])
       [si + 1..<length studs]))
     [0..<length studs])"

definition room_candidates ::
  "var_map \<Rightarrow> nat \<Rightarrow> position list \<Rightarrow> int list \<Rightarrow> Constraint list"
where
  "room_candidates x ki positions studs =
     concat (map (\<lambda>i.
       concat (map (\<lambda>j.
         if is_adjacent (positions ! i) (positions ! j)
         then pair_candidates x ki (positions ! i) (positions ! j) studs
         else [])
       [i + 1..<length positions]))
     [0..<length positions])"

definition group_candidates ::
  "var_map \<Rightarrow> nat \<Rightarrow> position list list \<Rightarrow> string \<times> int list \<Rightarrow> Constraint list"
where
  "group_candidates x n room_positions exam_group =
     (if length (snd exam_group) < 2 then []
      else concat (map (\<lambda>ki. room_candidates x ki (room_positions ! ki) (snd exam_group))
             [0..<n]))"

definition separation_candidates ::
  "var_map \<Rightarrow> nat \<Rightarrow> position list list \<Rightarrow> exam_groups \<Rightarrow> Constraint list"
where
  "separation_candidates x n room_positions groups =
     concat (map (group_candidates x n room_positions) groups)"

text \<open>
  Adding a list of constraints to the state of the separation loops, and adding as many
  of them as the cap leaves room for.
\<close>

definition emit :: "Constraint list \<Rightarrow> CpModelBuilder \<times> int \<Rightarrow> CpModelBuilder \<times> int" where
  "emit cs st = ((fst st)\<lparr>constraints := constraints (fst st) @ cs\<rparr>, snd st + int (length cs))"

definition capped :: "Constraint list \<Rightarrow> CpModelBuilder \<times> int \<Rightarrow> CpModelBuilder \<times> int" where
  "capped cs st = emit (take (nat (MAX_SEPARATION_CONSTRAINTS - snd st)) cs) st"

section \<open>Concrete inputs\<close>

text \<open>
  The inputs on which the properties below are exercised. Scenario A and D are literal
  scenarios of the specification.
\<close>

definition scenario_A_students :: "Student list" where
  "scenario_A_students = [\<lparr>id_student = 0, exam = ''math''\<rparr>, \<lparr>id_student = 1, exam = ''math''\<rparr>]"

definition scenario_A_rooms :: "Room list" where
  "scenario_A_rooms =
     [\<lparr>id_room = ''R1'', rows = 1, cols = 3, skip_rows = False, skip_cols = False\<rparr>]"

definition scenario_D_students :: "Student list" where
  "scenario_D_students =
     [\<lparr>id_student = 0, exam = ''x''\<rparr>, \<lparr>id_student = 1, exam = ''x''\<rparr>,
      \<lparr>id_student = 2, exam = ''x''\<rparr>, \<lparr>id_student = 3, exam = ''x''\<rparr>,
      \<lparr>id_student = 4, exam = ''x''\<rparr>]"

definition scenario_D_rooms :: "Room list" where
  "scenario_D_rooms =
     [\<lparr>id_room = ''R1'', rows = 1, cols = 3, skip_rows = False, skip_cols = False\<rparr>]"

text \<open>
  Two students of different exams and one room with two seats; the first student's
  exam is restricted to an empty list of rooms.
\<close>

definition empty_restriction_students :: "Student list" where
  "empty_restriction_students = [\<lparr>id_student = 0, exam = ''a''\<rparr>, \<lparr>id_student = 1, exam = ''b''\<rparr>]"

definition empty_restriction_rooms :: "Room list" where
  "empty_restriction_rooms =
     [\<lparr>id_room = ''R1'', rows = 1, cols = 2, skip_rows = False, skip_cols = False\<rparr>]"

definition empty_restriction :: "string \<rightharpoonup> string list" where
  "empty_restriction = [''a'' \<mapsto> []]"

text \<open>
  Two students and one room with two seats; the first student's exam is restricted to a
  room that is not among the rooms.
\<close>

definition unknown_room_students :: "Student list" where
  "unknown_room_students =
     [\<lparr>id_student = 0, exam = ''art''\<rparr>, \<lparr>id_student = 1, exam = ''math''\<rparr>]"

definition unknown_room_rooms :: "Room list" where
  "unknown_room_rooms =
     [\<lparr>id_room = ''R1'', rows = 1, cols = 2, skip_rows = False, skip_cols = False\<rparr>]"

definition unknown_room_restriction :: "string \<rightharpoonup> string list" where
  "unknown_room_restriction = [''art'' \<mapsto> [''R9'']]"

text \<open>
  Two students of one exam that is restricted to a room with one seat, and a second room
  with two seats.
\<close>

definition crowded_students :: "Student list" where
  "crowded_students = [\<lparr>id_student = 0, exam = ''art''\<rparr>, \<lparr>id_student = 1, exam = ''art''\<rparr>]"

definition crowded_rooms :: "Room list" where
  "crowded_rooms =
     [\<lparr>id_room = ''R1'', rows = 1, cols = 1, skip_rows = False, skip_cols = False\<rparr>,
      \<lparr>id_room = ''R2'', rows = 1, cols = 2, skip_rows = False, skip_cols = False\<rparr>]"

definition crowded_restriction :: "string \<rightharpoonup> string list" where
  "crowded_restriction = [''art'' \<mapsto> [''R1'']]"

text \<open>A room with a negative number of rows beside the room of scenario A.\<close>

definition negative_rows_rooms :: "Room list" where
  "negative_rows_rooms =
     [\<lparr>id_room = ''R0'', rows = - 2, cols = 3, skip_rows = False, skip_cols = False\<rparr>,
      \<lparr>id_room = ''R1'', rows = 1, cols = 3, skip_rows = False, skip_cols = False\<rparr>]"

text \<open>
  Two exams with two students each and one room of two rows and four columns that skips
  every other column: the four seats \<open>(0, 0)\<close>, \<open>(0, 2)\<close>, \<open>(1, 0)\<close>, \<open>(1, 2)\<close>, of which
  \<open>(0, 0)\<close>, \<open>(1, 0)\<close> and \<open>(0, 2)\<close>, \<open>(1, 2)\<close> are adjacent.
\<close>

definition two_exam_students :: "Student list" where
  "two_exam_students =
     [\<lparr>id_student = 0, exam = ''a''\<rparr>, \<lparr>id_student = 1, exam = ''a''\<rparr>,
      \<lparr>id_student = 2, exam = ''b''\<rparr>, \<lparr>id_student = 3, exam = ''b''\<rparr>]"

definition two_exam_rooms :: "Room list" where
  "two_exam_rooms =
     [\<lparr>id_room = ''R1'', rows = 2, cols = 4, skip_rows = False, skip_cols = True\<rparr>]"


text \<open>\<open>2 ^ 31\<close> students with the ids \<open>0, 1, \<dots>\<close>, all of one exam.\<close>

definition crowd_students :: "Student list" where
  "crowd_students = map (\<lambda>i. \<lparr>id_student = int i, exam = ''x''\<rparr>) [0..<2147483648]"

section \<open>Properties of the position precompute\<close>

declare col_loop.simps [simp del] row_loop.simps [simp del]

lemma rem_cpp_2_nonneg: "0 \<le> a \<Longrightarrow> rem_cpp a 2 \<noteq> 0 \<longleftrightarrow> a mod 2 \<noteq> 0"
  by (cases "a = 0") (simp_all add: rem_cpp_def)

lemma col_loop_eq:
  "0 \<le> c \<Longrightarrow>
   col_loop room r c acc =
     acc @ map (Pair r) (filter (\<lambda>c. \<not> skip_cols room \<or> c mod 2 = 0) [c..cols room - 1])"
proof (induction room r c acc rule: col_loop.induct)
  case (1 room r c positions)
  show ?case
  proof (cases "c < cols room")
    case True
    then have up: "[c..cols room - 1] = c # [c + 1..cols room - 1]"
      by (simp add: upto_rec1)
    from True 1 show ?thesis
      by (subst col_loop.simps) (simp add: up rem_cpp_2_nonneg)
  next
    case False
    then show ?thesis
      by (subst col_loop.simps) simp
  qed
qed

lemma row_loop_eq:
  "0 \<le> r \<Longrightarrow>
   row_loop room r acc =
     acc @ concat (map (\<lambda>r. map (Pair r)
                 (filter (\<lambda>c. \<not> skip_cols room \<or> c mod 2 = 0) [0..cols room - 1]))
               (filter (\<lambda>r. \<not> skip_rows room \<or> r mod 2 = 0) [r..rows room - 1]))"
proof (induction room r acc rule: row_loop.induct)
  case (1 room r positions)
  show ?case
  proof (cases "r < rows room")
    case True
    then have up: "[r..rows room - 1] = r # [r + 1..rows room - 1]"
      by (simp add: upto_rec1)
    from True 1 show ?thesis
      by (subst row_loop.simps) (simp add: up rem_cpp_2_nonneg col_loop_eq)
  next
    case False
    then show ?thesis
      by (subst row_loop.simps) simp
  qed
qed

lemma room_positions_of_eq:
  "room_positions_of room =
     concat (map (\<lambda>r. map (Pair r)
                 (filter (\<lambda>c. \<not> skip_cols room \<or> c mod 2 = 0) [0..cols room - 1]))
               (filter (\<lambda>r. \<not> skip_rows room \<or> r mod 2 = 0) [0..rows room - 1]))"
  by (simp add: room_positions_of_def row_loop_eq)

lemma set_room_positions_of:
  "set (room_positions_of room) =
     {p. 0 \<le> fst p \<and> fst p < rows room \<and> 0 \<le> snd p \<and> snd p < cols room \<and> usable room p}"
  by (auto simp: room_positions_of_eq usable_def)


lemma usable_row_comprehension:
  "concat (map (\<lambda>c. if usable room (r, c) then [(r, c)] else []) cs) =
     (if \<not> skip_rows room \<or> r mod 2 = 0
      then map (Pair r) (filter (\<lambda>c. \<not> skip_cols room \<or> c mod 2 = 0) cs) else [])"
  by (induction cs) (auto simp: usable_def)

lemma concat_map_filter_if:
  "concat (map f (filter P xs)) = concat (map (\<lambda>x. if P x then f x else []) xs)"
  by (induction xs) auto

lemma room_positions_of_comprehension:
  "room_positions_of room =
     [(r, c). r \<leftarrow> [0..rows room - 1], c \<leftarrow> [0..cols room - 1], usable room (r, c)]"
  unfolding room_positions_of_eq usable_row_comprehension concat_map_filter_if ..

lemma sorted_wrt_row_major_rows:
  "sorted_wrt (<) rs \<Longrightarrow> sorted_wrt (<) cs \<Longrightarrow>
   sorted_wrt row_major (concat (map (\<lambda>r. map (Pair r) (filter P cs)) rs))"
proof (induction rs)
  case Nil
  then show ?case by simp
next
  case (Cons r rs)
  have "sorted_wrt (<) (filter P cs)"
    using Cons.prems(2) by (rule sorted_wrt_filter)
  then have row: "sorted_wrt row_major (map (Pair r) (filter P cs))"
    by (simp add: sorted_wrt_map row_major_def)
  have cross: "\<forall>p \<in> set (map (Pair r) (filter P cs)).
                 \<forall>q \<in> set (concat (map (\<lambda>r. map (Pair r) (filter P cs)) rs)). row_major p q"
    using Cons.prems(1) by (auto simp: row_major_def)
  from Cons row cross show ?case
    by (simp add: sorted_wrt_append)
qed

lemma sorted_wrt_room_positions_of: "sorted_wrt row_major (room_positions_of room)"
  unfolding room_positions_of_eq
  by (rule sorted_wrt_row_major_rows) (simp_all add: sorted_wrt_filter)

lemma precompute_loop_eq:
  "precompute_loop rooms (rp, out) =
     (rp @ map room_positions_of rooms,
      out @ map (\<lambda>room. RoomPositions (id_room room) (length (room_positions_of room))) rooms)"
  by (induction rooms arbitrary: rp out) (simp_all add: Let_def)

lemma precompute_positions_eq:
  "precompute_positions rooms =
     (map room_positions_of rooms,
      map (\<lambda>room. RoomPositions (id_room room) (length (room_positions_of room))) rooms)"
  by (simp add: precompute_positions_def precompute_loop_eq)

text \<open>
  Claim C8. For every room the precomputed list is the list of the positions \<open>(r, c)\<close>
  with \<open>0 \<le> r < rows\<close> and \<open>0 \<le> c < cols\<close> that are usable under the room's skip flags,
  row outer and column inner, both ascending: it holds exactly these positions and is
  strictly ascending in row-major order.
\<close>

theorem precompute_positions_usable_row_major:
  "fst (precompute_positions rooms) =
     map (\<lambda>room. [(r, c). r \<leftarrow> [0..rows room - 1], c \<leftarrow> [0..cols room - 1],
                     usable room (r, c)]) rooms
   \<and> (\<forall>ki < length rooms.
        set (fst (precompute_positions rooms) ! ki) =
          {p. 0 \<le> fst p \<and> fst p < rows (rooms ! ki) \<and> 0 \<le> snd p \<and> snd p < cols (rooms ! ki)
              \<and> usable (rooms ! ki) p}
        \<and> sorted_wrt row_major (fst (precompute_positions rooms) ! ki))"
proof -
  have "fst (precompute_positions rooms) = map room_positions_of rooms"
    by (simp add: precompute_positions_eq)
  then show ?thesis
    by (simp add: room_positions_of_comprehension [symmetric] set_room_positions_of
        sorted_wrt_room_positions_of)
qed

lemma upto_from_0: "[0..numeral n] = 0 # [1..numeral n]"
  by (simp add: upto_rec1)

lemma upto_from_1: "[1..numeral n] = 1 # [2..numeral n]"
  by (simp add: upto_rec1)

lemma upto_0_1: "[0..1] = [0, 1]" and upto_0_0: "[0..0] = [0]"
  by (simp_all add: upto_rec1)

lemmas upto_eval = upto_from_0 upto_from_1 upto_0_1 upto_0_0

theorem precompute_positions_usable_row_major_witness:
  "fst (precompute_positions
      [\<lparr>id_room = ''R1'', rows = 1, cols = 5, skip_rows = False, skip_cols = True\<rparr>,
       \<lparr>id_room = ''R2'', rows = 3, cols = 2, skip_rows = True, skip_cols = False\<rparr>]) =
     [[(0, 0), (0, 2), (0, 4)], [(0, 0), (0, 1), (2, 0), (2, 1)]]"
proof -
  have "fst (precompute_positions
      [\<lparr>id_room = ''R1'', rows = 1, cols = 5, skip_rows = False, skip_cols = True\<rparr>,
       \<lparr>id_room = ''R2'', rows = 3, cols = 2, skip_rows = True, skip_cols = False\<rparr>]) =
     map (\<lambda>room. [(r, c). r \<leftarrow> [0..rows room - 1], c \<leftarrow> [0..cols room - 1],
                     usable room (r, c)])
      [\<lparr>id_room = ''R1'', rows = 1, cols = 5, skip_rows = False, skip_cols = True\<rparr>,
       \<lparr>id_room = ''R2'', rows = 3, cols = 2, skip_rows = True, skip_cols = False\<rparr>]"
    using precompute_positions_usable_row_major by blast
  then show ?thesis
    by (simp add: usable_def upto_eval)
qed

section \<open>Capacity check\<close>

lemma sint_of_nat_32: "n < 2 ^ 31 \<Longrightarrow> sint (of_nat n :: 32 word) = int n"
  by (simp add: signed_of_nat signed_take_bit_int_eq_self)

lemma fold_total_capacity:
  "fold (\<lambda>positions total_capacity. total_capacity + of_nat (length positions)) rp (acc :: 32 word) =
     acc + of_nat (sum_list (map length rp))"
  by (induction rp arbitrary: acc) (simp_all add: algebra_simps)

lemma total_capacity_of_eq: "total_capacity_of rp = of_nat (sum_list (map length rp))"
  by (simp add: total_capacity_of_def fold_total_capacity)

lemma sum_list_room_positions:
  "sum_list (map length (map room_positions_of rooms)) = capacity rooms"
  by (simp add: capacity_def comp_def)

lemma not_enough_capacity_iff:
  assumes "capacity rooms < 2 ^ 31" and "length students < 2 ^ 31"
  shows "not_enough_capacity (total_capacity_of (map room_positions_of rooms)) students \<longleftrightarrow>
         capacity rooms < length students"
  using assms
  by (simp add: not_enough_capacity_def total_capacity_of_eq sum_list_room_positions
      sint_of_nat_32 del: map_map)

lemma solve_not_enough:
  "not_enough_capacity (total_capacity_of (map room_positions_of rooms)) students \<Longrightarrow>
   solve bo solver students rooms restrictions t =
     \<lparr>returned = [],
      printed = [StartingWith (length students) (length rooms)] @
        map (\<lambda>room. RoomPositions (id_room room) (length (room_positions_of room))) rooms @
        [TotalCapacity (sint (total_capacity_of (map room_positions_of rooms))) (length students),
         NotEnoughCapacity],
      solved = None\<rparr>"
  by (simp add: solve_def precompute_positions_eq Let_def)

text \<open>
  Claim C7, as amended. When the number of students fits an \<^verbatim>\<open>int\<close> and the
  usable-seat capacity of the rooms is strictly below it, \<^verbatim>\<open>solve\<close> prints the capacity
  error, hands no model to the solver and returns the empty vector.
\<close>

theorem solve_insufficient_capacity:
  assumes "length students < 2 ^ 31"
    and "capacity rooms < length students"
  shows "returned (solve bucket_order solver students rooms restrictions timeout_seconds) = []
       \<and> solved (solve bucket_order solver students rooms restrictions timeout_seconds) = None
       \<and> last (printed (solve bucket_order solver students rooms restrictions timeout_seconds))
           = NotEnoughCapacity"
proof -
  from assms have "capacity rooms < 2 ^ 31"
    by simp
  with assms have "not_enough_capacity (total_capacity_of (map room_positions_of rooms)) students"
    by (simp add: not_enough_capacity_iff)
  then show ?thesis
    by (simp add: solve_not_enough)
qed

lemmas positions_eval = room_positions_of_def row_loop.simps col_loop.simps rem_cpp_def

theorem solve_insufficient_capacity_witness:
  "returned (solve id (answering \<lparr>status = OPTIMAL, solution = \<lambda>v. True\<rparr>)
       scenario_D_students scenario_D_rooms Map.empty 120) = []
   \<and> solved (solve id (answering \<lparr>status = OPTIMAL, solution = \<lambda>v. True\<rparr>)
       scenario_D_students scenario_D_rooms Map.empty 120) = None
   \<and> last (printed (solve id (answering \<lparr>status = OPTIMAL, solution = \<lambda>v. True\<rparr>)
       scenario_D_students scenario_D_rooms Map.empty 120)) = NotEnoughCapacity"
proof -
  have fits: "length scenario_D_students < 2 ^ 31"
    by (simp add: scenario_D_students_def)
  have short: "capacity scenario_D_rooms < length scenario_D_students"
    by (simp add: capacity_def scenario_D_rooms_def scenario_D_students_def positions_eval)
  show ?thesis
    by (rule solve_insufficient_capacity [OF fits short])
qed

text \<open>
  Claim C7 as stated fails where the student count does not fit an \<^verbatim>\<open>int\<close>: for
  \<open>2 ^ 31\<close> students and no room, \<^verbatim>\<open>static_cast<int>(students.size())\<close> is negative,
  the comparison with the capacity 0 fails, no capacity error is printed and the model is
  built and handed to the solver.
\<close>

theorem solve_insufficient_capacity_counterexample:
  "capacity [] < length crowd_students
   \<and> solved (solve id (answering \<lparr>status = UNKNOWN, solution = \<lambda>v. False\<rparr>)
        crowd_students [] Map.empty 120) \<noteq> None
   \<and> NotEnoughCapacity \<notin> set (printed (solve id
        (answering \<lparr>status = UNKNOWN, solution = \<lambda>v. False\<rparr>)
        crowd_students [] Map.empty 120))"
proof -
  have len: "length crowd_students = 2147483648"
    by (simp add: crowd_students_def)
  then have "\<not> not_enough_capacity (total_capacity_of (map room_positions_of [])) crowd_students"
    by (simp add: not_enough_capacity_def total_capacity_of_def)
  then show ?thesis
    by (simp add: solve_def precompute_positions_eq Let_def capacity_def len answering_def)
qed

section \<open>Result extraction\<close>

lemma fold_append_concat:
  assumes "\<And>a acc. f a acc = acc @ g a"
  shows "fold f xs acc = acc @ concat (map g xs)"
  by (induction xs arbitrary: acc) (simp_all add: assms)

lemma scan_positions_eq:
  "scan_positions response x student rooms ki positions acc =
     acc @ (case find (var_true response x (id_student student) ki) positions of
              None \<Rightarrow> [] | Some pos \<Rightarrow> [seat student rooms ki pos])"
  by (induction positions)
    (auto simp: var_true_def seat_def SolutionBooleanValue_def split: option.splits)

lemma student_assignments_eq:
  "student_assignments response x rooms rp student =
     concat (map (\<lambda>ki. case find (var_true response x (id_student student) ki) (rp ! ki) of
                          None \<Rightarrow> [] | Some pos \<Rightarrow> [seat student rooms ki pos])
               [0..<length rooms])"
proof -
  have "fold (\<lambda>ki. scan_positions response x student rooms ki (rp ! ki)) ks acc =
        acc @ concat (map (\<lambda>ki. case find (var_true response x (id_student student) ki) (rp ! ki) of
                          None \<Rightarrow> [] | Some pos \<Rightarrow> [seat student rooms ki pos]) ks)" for ks acc
    by (rule fold_append_concat) (rule scan_positions_eq)
  then show ?thesis
    by (simp add: student_assignments_def)
qed

lemma student_fold_eq:
  "fold (\<lambda>ki. scan_positions response x student rooms ki (rp ! ki)) [0..<length rooms] acc =
     acc @ student_assignments response x rooms rp student"
proof -
  have "fold (\<lambda>ki. scan_positions response x student rooms ki (rp ! ki)) ks acc =
        acc @ concat (map (\<lambda>ki. case find (var_true response x (id_student student) ki) (rp ! ki) of
                          None \<Rightarrow> [] | Some pos \<Rightarrow> [seat student rooms ki pos]) ks)" for ks
    by (rule fold_append_concat) (rule scan_positions_eq)
  then show ?thesis
    by (simp add: student_assignments_eq)
qed

lemma extract_results_eq:
  "extract_results response x students rooms rp =
     concat (map (student_assignments response x rooms rp) students)"
proof -
  have "fold (\<lambda>student. fold (\<lambda>ki. scan_positions response x student rooms ki (rp ! ki))
                           [0..<length rooms]) students acc =
        acc @ concat (map (student_assignments response x rooms rp) students)" for acc
    by (rule fold_append_concat) (rule student_fold_eq)
  then show ?thesis
    by (simp add: extract_results_def)
qed

lemma solve_enough:
  "\<not> not_enough_capacity (total_capacity_of (map room_positions_of rooms)) students \<Longrightarrow>
   solve bo solver students rooms restrictions t =
     (let b = built_for bo students rooms restrictions;
          response = solver (solver_parameters t) (model b);
          assignments = extract_results response (x_vars b) students rooms
                          (map room_positions_of rooms);
          ok = (status response = OPTIMAL \<or> status response = FEASIBLE)
      in \<lparr>returned = (if ok then assignments else []),
          printed = [StartingWith (length students) (length rooms)] @
            map (\<lambda>room. RoomPositions (id_room room) (length (room_positions_of room))) rooms @
            [TotalCapacity (sint (total_capacity_of (map room_positions_of rooms)))
               (length students),
             CreatedVariables (variable_count b), AddedSeparation (separation_count b),
             StartingSolver, SolverCompleted, Status (status response)] @
            (if ok then [AssignedStudents (length assignments)] else []),
          solved = Some (model b)\<rparr>)"
  by (simp add: solve_def precompute_positions_eq built_for_def Let_def)

lemma first_true_seats_eq:
  "first_true_seats response x students rooms rp =
     concat (map (student_assignments response x rooms rp) students)"
  by (simp add: first_true_seats_def flip: student_assignments_eq)

lemma first_true_seats_usable:
  assumes "a \<in> set (first_true_seats response x students rooms (map room_positions_of rooms))"
  shows "\<exists>ki < length rooms. room_id a = id_room (rooms ! ki)
           \<and> (row a, col a) \<in> set (room_positions_of (rooms ! ki))"
proof -
  from assms have "\<exists>student ki pos. ki < length rooms
      \<and> Some pos = find (var_true response x (id_student student) ki)
                       (room_positions_of (rooms ! ki))
      \<and> a = seat student rooms ki pos"
    unfolding first_true_seats_def by simp (meson atLeastLessThan_iff)
  then obtain student ki pos where ki: "ki < length rooms"
    and found: "find (var_true response x (id_student student) ki)
                  (room_positions_of (rooms ! ki)) = Some pos"
    and a: "a = seat student rooms ki pos"
    by metis
  from found have "pos \<in> set (room_positions_of (rooms ! ki))"
    by (auto simp: find_Some_iff)
  with ki a show ?thesis
    by (auto simp: seat_def)
qed

text \<open>
  Claim C9. Whatever the solver answers, the returned vector is empty or is the list of
  first true seats: students in input order, at most one seat per student and room, the
  first position of the room's row-major list whose variable is true. Every returned
  assignment names an input room and a usable position of that room.
\<close>

theorem returned_first_true_seats:
  "returned (solve bucket_order solver students rooms restrictions timeout_seconds) =
     (let b = built_for bucket_order students rooms restrictions;
          response = solver (solver_parameters timeout_seconds) (model b)
      in if not_enough_capacity (total_capacity_of (fst (precompute_positions rooms))) students
         then []
         else if status response = OPTIMAL \<or> status response = FEASIBLE
         then first_true_seats response (x_vars b) students rooms
                (fst (precompute_positions rooms))
         else [])
   \<and> (\<forall>a \<in> set (returned (solve bucket_order solver students rooms restrictions
                               timeout_seconds)).
        \<exists>ki < length rooms.
          room_id a = id_room (rooms ! ki)
          \<and> 0 \<le> row a \<and> row a < rows (rooms ! ki)
          \<and> 0 \<le> col a \<and> col a < cols (rooms ! ki)
          \<and> usable (rooms ! ki) (row a, col a))"
proof -
  let ?S = "solve bucket_order solver students rooms restrictions timeout_seconds"
  let ?b = "built_for bucket_order students rooms restrictions"
  let ?r = "solver (solver_parameters timeout_seconds) (model ?b)"
  let ?rp = "map room_positions_of rooms"
  have rp: "fst (precompute_positions rooms) = ?rp"
    by (simp add: precompute_positions_eq)
  have ret: "returned ?S =
     (if not_enough_capacity (total_capacity_of ?rp) students then []
      else if status ?r = OPTIMAL \<or> status ?r = FEASIBLE
      then first_true_seats ?r (x_vars ?b) students rooms ?rp else [])"
  proof (cases "not_enough_capacity (total_capacity_of ?rp) students")
    case True
    then show ?thesis by (simp add: solve_not_enough)
  next
    case False
    then show ?thesis
      by (simp add: solve_enough Let_def extract_results_eq first_true_seats_eq)
  qed
  have "\<exists>ki < length rooms.
          room_id a = id_room (rooms ! ki)
          \<and> 0 \<le> row a \<and> row a < rows (rooms ! ki)
          \<and> 0 \<le> col a \<and> col a < cols (rooms ! ki)
          \<and> usable (rooms ! ki) (row a, col a)" if "a \<in> set (returned ?S)" for a
  proof -
    from that ret have "a \<in> set (first_true_seats ?r (x_vars ?b) students rooms ?rp)"
      by (auto split: if_splits)
    then obtain ki where "ki < length rooms" "room_id a = id_room (rooms ! ki)"
      "(row a, col a) \<in> set (room_positions_of (rooms ! ki))"
      using first_true_seats_usable by blast
    then show ?thesis
      by (auto simp: set_room_positions_of)
  qed
  with ret rp show ?thesis
    by (simp add: Let_def)
qed

section \<open>Evaluation on concrete inputs\<close>

lemmas build_eval = built_for_def build_model_def exam_groupings_def create_room_usage_vars_def
  empty_model_def NewBoolVar_def create_assignment_vars_def create_student_vars_def
  create_position_vars_def room_allowed_def var_key_def to_string_def to_string_nat.simps
  digit_chars_def constraint1_def student_constraint_def
  student_vars_of_def AddEquality_def AddLessOrEqual_def constraint2_def seat_constraint_def
  seat_students_def constraint3_def exam_group_constraints_def position_pairs_def
  position_pair_def student_pairs_def separation_pair_def below_cap_def
  MAX_SEPARATION_CONSTRAINTS_def is_adjacent_def Minimize_def precompute_positions_eq
  positions_eval

lemmas solve_eval = solve_def total_capacity_of_def not_enough_capacity_def extract_results_def
  SolutionBooleanValue_def solver_parameters_def answering_def first_true_seats_def
  var_true_def seat_def

theorem returned_first_true_seats_witness:
  "returned (solve id (answering \<lparr>status = OPTIMAL, solution = \<lambda>v. v \<in> {0, 1, 6}\<rparr>)
     scenario_A_students scenario_A_rooms Map.empty 120) =
     [\<lparr>student_id = 0, room_id = ''R1'', row = 0, col = 0\<rparr>,
      \<lparr>student_id = 1, room_id = ''R1'', row = 0, col = 2\<rparr>]"
proof -
  have "returned (solve id (answering \<lparr>status = OPTIMAL, solution = \<lambda>v. v \<in> {0, 1, 6}\<rparr>)
          scenario_A_students scenario_A_rooms Map.empty 120) =
     (let b = built_for id scenario_A_students scenario_A_rooms Map.empty;
          response = answering \<lparr>status = OPTIMAL, solution = \<lambda>v. v \<in> {0, 1, 6}\<rparr>
                       (solver_parameters 120) (model b)
      in if not_enough_capacity (total_capacity_of (fst (precompute_positions scenario_A_rooms)))
              scenario_A_students
         then []
         else if status response = OPTIMAL \<or> status response = FEASIBLE
         then first_true_seats response (x_vars b) scenario_A_students scenario_A_rooms
                (fst (precompute_positions scenario_A_rooms))
         else [])"
    using returned_first_true_seats by blast
  also have "\<dots> = [\<lparr>student_id = 0, room_id = ''R1'', row = 0, col = 0\<rparr>,
      \<lparr>student_id = 1, room_id = ''R1'', row = 0, col = 2\<rparr>]"
    by (simp add: build_eval solve_eval scenario_A_students_def scenario_A_rooms_def)
  finally show ?thesis .
qed

section \<open>The decision variables\<close>

text \<open>Two keys are equal exactly when the four numbers in them are.\<close>

lemma digit_chars_inj:
  "a < 10 \<Longrightarrow> b < 10 \<Longrightarrow> digit_chars ! a = digit_chars ! b \<longleftrightarrow> a = b"
proof -
  have "distinct digit_chars" and "length digit_chars = 10"
    by (simp_all add: digit_chars_def)
  then show "a < 10 \<Longrightarrow> b < 10 \<Longrightarrow> digit_chars ! a = digit_chars ! b \<longleftrightarrow> a = b"
    by (simp add: nth_eq_iff_index_eq)
qed

lemma to_string_nat_not_Nil: "to_string_nat n \<noteq> []" "[] \<noteq> to_string_nat n"
  by (subst to_string_nat.simps, simp)+

lemma to_string_nat_digits: "set (to_string_nat n) \<subseteq> set digit_chars"
proof (induction n rule: to_string_nat.induct)
  case (1 n)
  have len: "length digit_chars = 10"
    by (simp add: digit_chars_def)
  show ?case
  proof (cases "n < 10")
    case True
    with len show ?thesis
      by (subst to_string_nat.simps) simp
  next
    case False
    have "digit_chars ! (n mod 10) \<in> set digit_chars"
      by (rule nth_mem) (simp add: len)
    with False 1 show ?thesis
      by (subst to_string_nat.simps) simp
  qed
qed

lemma to_string_nat_inject: "to_string_nat m = to_string_nat n \<Longrightarrow> m = n"
proof (induction m arbitrary: n rule: to_string_nat.induct)
  case (1 m)
  show ?case
  proof (cases "m < 10")
    case m: True
    show ?thesis
    proof (cases "n < 10")
      case True
      with m "1.prems" show ?thesis
        by (simp add: to_string_nat.simps [of m] to_string_nat.simps [of n] digit_chars_inj)
    next
      case False
      with m "1.prems" show ?thesis
        by (simp add: to_string_nat.simps [of m] to_string_nat.simps [of n]
            to_string_nat_not_Nil)
    qed
  next
    case m: False
    show ?thesis
    proof (cases "n < 10")
      case True
      with m "1.prems" show ?thesis
        by (simp add: to_string_nat.simps [of m] to_string_nat.simps [of n]
            to_string_nat_not_Nil)
    next
      case False
      with m "1.prems" have "to_string_nat (m div 10) = to_string_nat (n div 10)"
        and "digit_chars ! (m mod 10) = digit_chars ! (n mod 10)"
        by (simp_all add: to_string_nat.simps [of m] to_string_nat.simps [of n])
      with m "1.IH" have "m div 10 = n div 10" and "m mod 10 = n mod 10"
        by (simp_all add: digit_chars_inj)
      then show ?thesis
        by (metis div_mult_mod_eq)
    qed
  qed
qed

lemma minus_not_digit: "CHR ''-'' \<notin> set digit_chars"
  by (simp add: digit_chars_def)

lemma underscore_not_digit: "CHR ''_'' \<notin> set digit_chars"
  by (simp add: digit_chars_def)

lemma to_string_inject: "to_string i = to_string j \<Longrightarrow> i = j"
proof -
  have no_minus: "hd (to_string_nat n) \<noteq> CHR ''-''" for n
    using to_string_nat_digits [of n] to_string_nat_not_Nil(1) [of n] minus_not_digit
    by (metis hd_in_set subsetD)
  assume eq: "to_string i = to_string j"
  show ?thesis
  proof (cases "i < 0"; cases "j < 0")
    assume "i < 0" "j < 0"
    with eq have "nat (- i) = nat (- j)"
      by (simp add: to_string_def to_string_nat_inject)
    with \<open>i < 0\<close> \<open>j < 0\<close> show ?thesis by simp
  next
    assume "i < 0" "\<not> j < 0"
    with eq have "to_string_nat (nat j) = CHR ''-'' # to_string_nat (nat (- i))"
      by (simp add: to_string_def)
    then have "hd (to_string_nat (nat j)) = CHR ''-''"
      by simp
    with no_minus show ?thesis by simp
  next
    assume "\<not> i < 0" "j < 0"
    with eq have "to_string_nat (nat i) = CHR ''-'' # to_string_nat (nat (- j))"
      by (simp add: to_string_def)
    then have "hd (to_string_nat (nat i)) = CHR ''-''"
      by simp
    with no_minus show ?thesis by simp
  next
    assume "\<not> i < 0" "\<not> j < 0"
    with eq have "nat i = nat j"
      by (simp add: to_string_def to_string_nat_inject)
    with \<open>\<not> i < 0\<close> \<open>\<not> j < 0\<close> show ?thesis by simp
  qed
qed

lemma to_string_no_underscore: "CHR ''_'' \<notin> set (to_string i)"
  using to_string_nat_digits underscore_not_digit
  by (auto simp: to_string_def)

lemma split_at_separator:
  "c \<notin> set a \<Longrightarrow> c \<notin> set a' \<Longrightarrow> a @ c # r = a' @ c # r' \<Longrightarrow> a = a' \<and> r = r'"
proof (induction a arbitrary: a')
  case Nil
  then show ?case by (cases a') auto
next
  case (Cons x a)
  then show ?case by (cases a') auto
qed

lemma var_key_inject [simp]:
  "var_key sid ki pos = var_key sid' ki' pos' \<longleftrightarrow> sid = sid' \<and> ki = ki' \<and> pos = pos'"
proof
  assume "var_key sid ki pos = var_key sid' ki' pos'"
  then have eq: "to_string sid @ CHR ''_'' # (to_string (int ki) @ CHR ''_'' #
        (to_string (fst pos) @ CHR ''_'' # to_string (snd pos))) =
      to_string sid' @ CHR ''_'' # (to_string (int ki') @ CHR ''_'' #
        (to_string (fst pos') @ CHR ''_'' # to_string (snd pos')))"
    by (simp add: var_key_def)
  from split_at_separator [OF to_string_no_underscore to_string_no_underscore eq]
  have s: "to_string sid = to_string sid'"
    and eq2: "to_string (int ki) @ CHR ''_'' #
        (to_string (fst pos) @ CHR ''_'' # to_string (snd pos)) =
      to_string (int ki') @ CHR ''_'' #
        (to_string (fst pos') @ CHR ''_'' # to_string (snd pos'))"
    by simp_all
  from split_at_separator [OF to_string_no_underscore to_string_no_underscore eq2]
  have k: "to_string (int ki) = to_string (int ki')"
    and eq3: "to_string (fst pos) @ CHR ''_'' # to_string (snd pos) =
      to_string (fst pos') @ CHR ''_'' # to_string (snd pos')"
    by simp_all
  from split_at_separator [OF to_string_no_underscore to_string_no_underscore eq3]
  have r: "to_string (fst pos) = to_string (fst pos')"
    and c: "to_string (snd pos) = to_string (snd pos')"
    by simp_all
  from s k r c show "sid = sid' \<and> ki = ki' \<and> pos = pos'"
    by (auto dest!: to_string_inject simp: prod_eq_iff)
next
  assume "sid = sid' \<and> ki = ki' \<and> pos = pos'"
  then show "var_key sid ki pos = var_key sid' ki' pos'"
    by simp
qed

lemma create_position_vars_dom:
  "dom (fst (snd (create_position_vars sid ki positions st))) =
     dom (fst (snd st)) \<union> var_key sid ki ` set positions"
proof (induction positions arbitrary: st)
  case Nil
  show ?case by (simp add: create_position_vars_def)
next
  case (Cons pos positions)
  obtain cp x vc where st: "st = (cp, x, vc)"
    by (cases st)
  have step: "create_position_vars sid ki (pos # positions) st =
      create_position_vars sid ki positions
        (snd (NewBoolVar cp), x(var_key sid ki pos \<mapsto> fst (NewBoolVar cp)), vc + 1)"
    by (simp add: create_position_vars_def st split_def Let_def)
  show ?case
    unfolding step Cons.IH by (auto simp: st)
qed

lemma create_student_vars_fold_dom:
  "dom (fst (snd (fold (\<lambda>ki st.
             if room_allowed restrictions e (id_room (rooms ! ki))
             then create_position_vars sid ki (rp ! ki) st
             else st) ks st))) =
     dom (fst (snd st)) \<union>
       {var_key sid ki pos | ki pos.
          ki \<in> set ks \<and> room_allowed restrictions e (id_room (rooms ! ki))
          \<and> pos \<in> set (rp ! ki)}"
proof (induction ks arbitrary: st)
  case Nil
  show ?case by simp
next
  case (Cons k ks)
  show ?case
    by (auto simp: Cons.IH create_position_vars_dom)
qed

lemma create_student_vars_dom:
  "dom (fst (snd (create_student_vars restrictions rooms rp student st))) =
     dom (fst (snd st)) \<union>
       {var_key (id_student student) ki pos | ki pos.
          ki < length rooms \<and> room_allowed restrictions (exam student) (id_room (rooms ! ki))
          \<and> pos \<in> set (rp ! ki)}"
  by (simp add: create_student_vars_def create_student_vars_fold_dom)

lemma create_assignment_vars_dom:
  "dom (fst (snd (create_assignment_vars restrictions rooms rp students st))) =
     dom (fst (snd st)) \<union> created_keys restrictions rooms rp students"
proof (induction students arbitrary: st)
  case Nil
  show ?case by (simp add: create_assignment_vars_def created_keys_def)
next
  case (Cons student students)
  have "created_keys restrictions rooms rp (student # students) =
      {var_key (id_student student) ki pos | ki pos.
          ki < length rooms \<and> room_allowed restrictions (exam student) (id_room (rooms ! ki))
          \<and> pos \<in> set (rp ! ki)} \<union> created_keys restrictions rooms rp students"
    unfolding created_keys_def by auto
  with Cons.IH show ?case
    by (simp add: create_assignment_vars_def create_student_vars_dom Un_assoc)
qed

lemma x_vars_build_model:
  "x_vars (build_model bo students rooms restrictions rp) =
     fst (snd (create_assignment_vars restrictions rooms rp students
       (snd (create_room_usage_vars (length rooms) empty_model), Map.empty, 0)))"
  by (simp add: build_model_def split_def Let_def)

lemma dom_x_vars:
  "dom (x_vars (build_model bo students rooms restrictions rp)) =
     created_keys restrictions rooms rp students"
  by (simp add: x_vars_build_model create_assignment_vars_dom)

section \<open>Students without decision variables\<close>

lemma student_vars_of_eq:
  "student_vars_of x n rp student =
     concat (map (\<lambda>ki. concat (map (\<lambda>pos. case x (var_key (id_student student) ki pos) of
                                           Some v \<Rightarrow> [v] | None \<Rightarrow> [])
                                (rp ! ki)))
               [0..<n])"
proof -
  have inner: "fold (\<lambda>pos student_vars.
                    case x (var_key (id_student student) ki pos) of
                      Some v \<Rightarrow> student_vars @ [v]
                    | None \<Rightarrow> student_vars) positions acc =
      acc @ concat (map (\<lambda>pos. case x (var_key (id_student student) ki pos) of
                                  Some v \<Rightarrow> [v] | None \<Rightarrow> []) positions)" for ki positions acc
    by (rule fold_append_concat) (simp split: option.splits)
  have "fold (\<lambda>ki. fold (\<lambda>pos student_vars.
                    case x (var_key (id_student student) ki pos) of
                      Some v \<Rightarrow> student_vars @ [v]
                    | None \<Rightarrow> student_vars) (rp ! ki)) ks acc =
      acc @ concat (map (\<lambda>ki. concat (map (\<lambda>pos.
                case x (var_key (id_student student) ki pos) of
                  Some v \<Rightarrow> [v] | None \<Rightarrow> []) (rp ! ki))) ks)" for ks acc
    by (rule fold_append_concat) (rule inner)
  then show ?thesis
    by (simp add: student_vars_of_def)
qed

lemma student_vars_of_empty:
  "student_vars_of x n rp student = [] \<longleftrightarrow>
     (\<forall>ki < n. \<forall>pos \<in> set (rp ! ki). x (var_key (id_student student) ki pos) = None)"
  by (auto simp: student_vars_of_eq split: option.splits)

lemma student_assignments_no_vars:
  assumes "student_vars_of x (length rooms) rp student = []"
    and "id_student student' = id_student student"
  shows "student_assignments response x rooms rp student' = []"
proof -
  have "find (var_true response x (id_student student) ki) (rp ! ki) = None"
    if "ki < length rooms" for ki
    using assms(1) that by (auto simp: find_None_iff student_vars_of_empty var_true_def)
  with assms(2) show ?thesis
    by (simp add: student_assignments_eq)
qed

lemma student_id_student_assignments:
  "a \<in> set (student_assignments response x rooms rp student) \<Longrightarrow>
   student_id a = id_student student"
  by (auto simp: student_assignments_eq seat_def split: option.splits)

lemma returned_subset_extract:
  "set (returned (solve bo solver students rooms restrictions t)) \<subseteq>
     set (extract_results (solver (solver_parameters t) (model (built_for bo students rooms restrictions)))
            (x_vars (built_for bo students rooms restrictions)) students rooms
            (map room_positions_of rooms))"
proof (cases "not_enough_capacity (total_capacity_of (map room_positions_of rooms)) students")
  case True
  then show ?thesis by (simp add: solve_not_enough)
next
  case False
  then show ?thesis by (auto simp: solve_enough Let_def)
qed

text \<open>
  Claim C3, as amended. For a student without decision variables the list
  \<^verbatim>\<open>student_vars\<close> is empty, the guard of constraint 1 adds no constraint for the
  student, and no assignment that \<^verbatim>\<open>solve\<close> returns carries the student's id: the
  student is left out.
\<close>

theorem student_without_variables_omitted:
  assumes "student_vars_of (x_vars (built_for bucket_order students rooms restrictions))
             (length rooms) (fst (precompute_positions rooms)) student = []"
  shows "student_constraint (x_vars (built_for bucket_order students rooms restrictions))
           (length rooms) (fst (precompute_positions rooms)) student cp = cp
       \<and> (\<forall>a \<in> set (returned (solve bucket_order solver students rooms restrictions
                                   timeout_seconds)).
            student_id a \<noteq> id_student student)"
proof -
  let ?b = "built_for bucket_order students rooms restrictions"
  let ?rp = "map room_positions_of rooms"
  from assms have none: "student_vars_of (x_vars ?b) (length rooms) ?rp student = []"
    by (simp add: precompute_positions_eq)
  have "student_id a \<noteq> id_student student"
    if "a \<in> set (returned (solve bucket_order solver students rooms restrictions
                             timeout_seconds))" for a
  proof
    assume same: "student_id a = id_student student"
    from that returned_subset_extract
    obtain student' where "a \<in> set (student_assignments
        (solver (solver_parameters timeout_seconds) (model ?b)) (x_vars ?b) rooms ?rp student')"
      by (fastforce simp: extract_results_eq)
    moreover from this same have "id_student student' = id_student student"
      by (simp add: student_id_student_assignments)
    ultimately show False
      using student_assignments_no_vars [OF none] by fastforce
  qed
  with assms show ?thesis
    by (simp add: student_constraint_def)
qed

theorem student_without_variables_omitted_witness:
  "student_constraint (x_vars (built_for id empty_restriction_students empty_restriction_rooms
        empty_restriction))
      (length empty_restriction_rooms) (fst (precompute_positions empty_restriction_rooms))
      \<lparr>id_student = 0, exam = ''a''\<rparr> empty_model = empty_model
   \<and> list_all (\<lambda>a. student_id a \<noteq> 0)
       (returned (solve id (answering \<lparr>status = OPTIMAL, solution = \<lambda>v. True\<rparr>)
          empty_restriction_students empty_restriction_rooms empty_restriction 120))"
proof -
  have none: "student_vars_of (x_vars (built_for id empty_restriction_students
        empty_restriction_rooms empty_restriction))
      (length empty_restriction_rooms) (fst (precompute_positions empty_restriction_rooms))
      \<lparr>id_student = 0, exam = ''a''\<rparr> = []"
    by (simp add: build_eval empty_restriction_students_def empty_restriction_rooms_def
        empty_restriction_def)
  show ?thesis
    using student_without_variables_omitted [OF none, of empty_model
        "answering \<lparr>status = OPTIMAL, solution = \<lambda>v. True\<rparr>" 120]
    by (simp add: list_all_iff)
qed

text \<open>
  Claim C3 as stated fails: with the first student's exam restricted to an empty list,
  no variable exists for that student, yet the built model has a solution and
  \<^verbatim>\<open>solve\<close> returns the seating of the other student alone.
\<close>

theorem student_without_variables_counterexample:
  "student_vars_of (x_vars (built_for id empty_restriction_students empty_restriction_rooms
        empty_restriction))
      (length empty_restriction_rooms) (fst (precompute_positions empty_restriction_rooms))
      \<lparr>id_student = 0, exam = ''a''\<rparr> = []
   \<and> solution_of (model (built_for id empty_restriction_students empty_restriction_rooms
        empty_restriction)) (\<lambda>v. v \<in> {0, 1})
   \<and> returned (solve id (answering \<lparr>status = OPTIMAL, solution = \<lambda>v. v \<in> {0, 1}\<rparr>)
        empty_restriction_students empty_restriction_rooms empty_restriction 120) =
      [\<lparr>student_id = 1, room_id = ''R1'', row = 0, col = 0\<rparr>]"
  by (simp add: build_eval solve_eval solution_of_def empty_restriction_students_def
      empty_restriction_rooms_def empty_restriction_def)

section \<open>Extraction has no count check\<close>

lemma length_concat_at_most_one:
  assumes "\<And>a. length (f a) = (if P a then 1 else 0)"
  shows "length (concat (map f xs)) = length (filter P xs)"
  by (induction xs) (simp_all add: assms)

lemma length_student_assignments:
  "length (student_assignments response x rooms rp student) =
     length (true_rooms response x rooms rp (id_student student))"
proof -
  have "length (case find P ps of None \<Rightarrow> [] | Some pos \<Rightarrow> [g pos]) =
        (if filter P ps \<noteq> [] then 1 else 0)" for P :: "position \<Rightarrow> bool" and ps
    and g :: "position \<Rightarrow> Assignment"
    by (induction ps) auto
  then show ?thesis
    unfolding student_assignments_eq true_rooms_def
    by (rule length_concat_at_most_one)
qed

lemma length_true_rooms_le:
  "length (true_rooms response x rooms rp sid) \<le> true_count response x rooms rp sid"
proof -
  have "length (filter (\<lambda>ki. f ki \<noteq> []) ks) \<le> sum_list (map (\<lambda>ki. length (f ki)) ks)"
    for f :: "nat \<Rightarrow> position list" and ks
  proof (induction ks)
    case Nil
    show ?case by simp
  next
    case (Cons k ks)
    then show ?case
      by (cases "f k") simp_all
  qed
  then show ?thesis
    by (simp add: true_rooms_def true_count_def)
qed

lemma true_count_0:
  "true_count response x rooms rp sid = 0 \<Longrightarrow> true_rooms response x rooms rp sid = []"
  using length_true_rooms_le [of response x rooms rp sid] by simp

text \<open>
  Claim C6, as amended. The extraction checks no count. For a response with status
  \<open>OPTIMAL\<close> or \<open>FEASIBLE\<close> it returns the concatenation, over the students in input
  order, of the seats found for each: one seat for every room in which the student has
  a true variable, so never more than the number of true variables, and none for a
  student without a true variable.
\<close>

theorem extraction_counts_nothing:
  assumes "\<not> not_enough_capacity (total_capacity_of (fst (precompute_positions rooms))) students"
    and "status (solver (solver_parameters timeout_seconds)
           (model (built_for bucket_order students rooms restrictions))) = OPTIMAL
       \<or> status (solver (solver_parameters timeout_seconds)
           (model (built_for bucket_order students rooms restrictions))) = FEASIBLE"
  shows "returned (solve bucket_order solver students rooms restrictions timeout_seconds) =
           concat (map (student_assignments
                          (solver (solver_parameters timeout_seconds)
                             (model (built_for bucket_order students rooms restrictions)))
                          (x_vars (built_for bucket_order students rooms restrictions))
                          rooms (fst (precompute_positions rooms)))
                     students)
       \<and> (\<forall>student.
            length (student_assignments
                      (solver (solver_parameters timeout_seconds)
                         (model (built_for bucket_order students rooms restrictions)))
                      (x_vars (built_for bucket_order students rooms restrictions))
                      rooms (fst (precompute_positions rooms)) student) =
            length (true_rooms
                      (solver (solver_parameters timeout_seconds)
                         (model (built_for bucket_order students rooms restrictions)))
                      (x_vars (built_for bucket_order students rooms restrictions))
                      rooms (fst (precompute_positions rooms)) (id_student student))
          \<and> length (true_rooms
                      (solver (solver_parameters timeout_seconds)
                         (model (built_for bucket_order students rooms restrictions)))
                      (x_vars (built_for bucket_order students rooms restrictions))
                      rooms (fst (precompute_positions rooms)) (id_student student))
            \<le> true_count
                      (solver (solver_parameters timeout_seconds)
                         (model (built_for bucket_order students rooms restrictions)))
                      (x_vars (built_for bucket_order students rooms restrictions))
                      rooms (fst (precompute_positions rooms)) (id_student student))"
proof -
  from assms have "returned (solve bucket_order solver students rooms restrictions
      timeout_seconds) =
    extract_results (solver (solver_parameters timeout_seconds)
                             (model (built_for bucket_order students rooms restrictions)))
      (x_vars (built_for bucket_order students rooms restrictions)) students rooms
      (fst (precompute_positions rooms))"
    by (auto simp: precompute_positions_eq solve_enough Let_def)
  then show ?thesis
    by (simp add: extract_results_eq length_student_assignments length_true_rooms_le)
qed

theorem extraction_counts_nothing_witness:
  "returned (solve id (answering \<lparr>status = FEASIBLE, solution = \<lambda>v. v \<in> {0, 2}\<rparr>)
      unknown_room_students unknown_room_rooms unknown_room_restriction 120) =
     [\<lparr>student_id = 1, room_id = ''R1'', row = 0, col = 1\<rparr>]"
proof -
  let ?solver = "answering \<lparr>status = FEASIBLE, solution = \<lambda>v. v \<in> {0, 2}\<rparr>"
  have enough: "\<not> not_enough_capacity
      (total_capacity_of (fst (precompute_positions unknown_room_rooms))) unknown_room_students"
    by (simp add: build_eval solve_eval unknown_room_students_def unknown_room_rooms_def)
  have ok: "status (?solver (solver_parameters 120)
           (model (built_for id unknown_room_students unknown_room_rooms
              unknown_room_restriction))) = OPTIMAL
       \<or> status (?solver (solver_parameters 120)
           (model (built_for id unknown_room_students unknown_room_rooms
              unknown_room_restriction))) = FEASIBLE"
    by (simp add: answering_def)
  have "returned (solve id ?solver unknown_room_students unknown_room_rooms
          unknown_room_restriction 120) =
        concat (map (student_assignments
                          (?solver (solver_parameters 120)
                             (model (built_for id unknown_room_students unknown_room_rooms
                                unknown_room_restriction)))
                          (x_vars (built_for id unknown_room_students unknown_room_rooms
                                unknown_room_restriction))
                          unknown_room_rooms (fst (precompute_positions unknown_room_rooms)))
                     unknown_room_students)"
    using extraction_counts_nothing [where solver = ?solver and students = unknown_room_students
        and rooms = unknown_room_rooms and restrictions = unknown_room_restriction
        and bucket_order = id and timeout_seconds = 120, OF enough ok]
    by blast
  also have "\<dots> = [\<lparr>student_id = 1, room_id = ''R1'', row = 0, col = 1\<rparr>]"
    by (simp add: student_assignments_def build_eval solve_eval unknown_room_students_def
        unknown_room_rooms_def unknown_room_restriction_def)
  finally show ?thesis .
qed

text \<open>
  Claim C6 as stated fails: the response has status \<open>OPTIMAL\<close> and is a solution of
  the built model, student 0 has no true variable, and \<^verbatim>\<open>solve\<close> returns an
  assignment list and reports one assigned student.
\<close>

theorem extraction_counts_nothing_counterexample:
  "solution_of (model (built_for id unknown_room_students unknown_room_rooms
        unknown_room_restriction)) (\<lambda>v. v \<in> {0, 2})
   \<and> true_count \<lparr>status = OPTIMAL, solution = \<lambda>v. v \<in> {0, 2}\<rparr>
        (x_vars (built_for id unknown_room_students unknown_room_rooms unknown_room_restriction))
        unknown_room_rooms (fst (precompute_positions unknown_room_rooms)) 0 = 0
   \<and> returned (solve id (answering \<lparr>status = OPTIMAL, solution = \<lambda>v. v \<in> {0, 2}\<rparr>)
        unknown_room_students unknown_room_rooms unknown_room_restriction 120) =
      [\<lparr>student_id = 1, room_id = ''R1'', row = 0, col = 1\<rparr>]
   \<and> last (printed (solve id (answering \<lparr>status = OPTIMAL, solution = \<lambda>v. v \<in> {0, 2}\<rparr>)
        unknown_room_students unknown_room_rooms unknown_room_restriction 120)) =
      AssignedStudents 1"
  by (simp add: build_eval solve_eval solution_of_def true_count_def unknown_room_students_def
      unknown_room_rooms_def unknown_room_restriction_def)

section \<open>No check of restricted capacity\<close>

text \<open>
  Claim C2, as amended. \<^verbatim>\<open>solve\<close> compares the number of students with the total
  capacity only. Whenever the students fit the total capacity, whatever the restrictions
  say, it prints no capacity error, builds the model and hands it to the solver; the
  returned vector is empty when the solver's status is neither \<open>OPTIMAL\<close> nor
  \<open>FEASIBLE\<close>.
\<close>

theorem restricted_capacity_unchecked:
  assumes "length students \<le> capacity rooms" and "capacity rooms < 2 ^ 31"
  shows "solved (solve bucket_order solver students rooms restrictions timeout_seconds) =
           Some (model (built_for bucket_order students rooms restrictions))
       \<and> NotEnoughCapacity \<notin>
           set (printed (solve bucket_order solver students rooms restrictions timeout_seconds))
       \<and> (status (solver (solver_parameters timeout_seconds)
              (model (built_for bucket_order students rooms restrictions))) \<noteq> OPTIMAL
          \<and> status (solver (solver_parameters timeout_seconds)
              (model (built_for bucket_order students rooms restrictions))) \<noteq> FEASIBLE
          \<longrightarrow> returned (solve bucket_order solver students rooms restrictions timeout_seconds)
                = [])"
proof -
  from assms have "length students < 2 ^ 31"
    by simp
  with assms have "\<not> not_enough_capacity (total_capacity_of (map room_positions_of rooms)) students"
    by (simp add: not_enough_capacity_iff)
  then show ?thesis
    by (auto simp: solve_enough Let_def)
qed

theorem restricted_capacity_unchecked_witness:
  "solved (solve id (answering \<lparr>status = INFEASIBLE, solution = \<lambda>v. False\<rparr>)
      crowded_students crowded_rooms crowded_restriction 120) =
     Some (model (built_for id crowded_students crowded_rooms crowded_restriction))
   \<and> returned (solve id (answering \<lparr>status = INFEASIBLE, solution = \<lambda>v. False\<rparr>)
      crowded_students crowded_rooms crowded_restriction 120) = []"
proof -
  have fits: "length crowded_students \<le> capacity crowded_rooms"
    by (simp add: capacity_def crowded_students_def crowded_rooms_def positions_eval)
  have small: "capacity crowded_rooms < 2 ^ 31"
    by (simp add: capacity_def crowded_rooms_def positions_eval)
  show ?thesis
    using restricted_capacity_unchecked [where students = crowded_students
        and rooms = crowded_rooms and restrictions = crowded_restriction and bucket_order = id
        and solver = "answering \<lparr>status = INFEASIBLE, solution = \<lambda>v. False\<rparr>"
        and timeout_seconds = 120, OF fits small]
    by (simp add: answering_def)
qed

text \<open>
  Claim C2 as stated fails: the exam is restricted to a room with one seat and has two
  students, yet \<^verbatim>\<open>solve\<close> prints no error before the solver runs and hands the built
  model to the solver; the rejection is the solver's.
\<close>

theorem restricted_capacity_counterexample:
  "restricted_capacity crowded_rooms [''R1''] < exam_size crowded_students ''art''
   \<and> solved (solve id (answering \<lparr>status = INFEASIBLE, solution = \<lambda>v. False\<rparr>)
        crowded_students crowded_rooms crowded_restriction 120) \<noteq> None
   \<and> printed (solve id (answering \<lparr>status = INFEASIBLE, solution = \<lambda>v. False\<rparr>)
        crowded_students crowded_rooms crowded_restriction 120) =
      [StartingWith 2 2, RoomPositions ''R1'' 1, RoomPositions ''R2'' 2, TotalCapacity 3 2,
       CreatedVariables 2, AddedSeparation 0, StartingSolver, SolverCompleted,
       Status INFEASIBLE]"
  by (simp add: build_eval solve_eval restricted_capacity_def exam_size_def
      crowded_students_def crowded_rooms_def crowded_restriction_def)

section \<open>Rooms without seats\<close>

lemma room_positions_of_no_seats:
  assumes "rows room \<le> 0 \<or> cols room \<le> 0"
  shows "room_positions_of room = []"
proof -
  from assms have "set (room_positions_of room) = {}"
    by (auto simp: set_room_positions_of)
  then show ?thesis by simp
qed

lemma create_student_vars_rooms_cong:
  assumes "length rooms' = length rooms"
    and "\<And>ki. ki < length rooms \<Longrightarrow> id_room (rooms' ! ki) = id_room (rooms ! ki)"
  shows "create_student_vars restrictions rooms' rp student st =
         create_student_vars restrictions rooms rp student st"
  unfolding create_student_vars_def
  by (rule fold_cong) (simp_all add: assms)

lemma create_assignment_vars_rooms_cong:
  assumes "length rooms' = length rooms"
    and "\<And>ki. ki < length rooms \<Longrightarrow> id_room (rooms' ! ki) = id_room (rooms ! ki)"
  shows "create_assignment_vars restrictions rooms' rp students st =
         create_assignment_vars restrictions rooms rp students st"
  unfolding create_assignment_vars_def
  by (rule fold_cong) (auto intro: create_student_vars_rooms_cong assms)

lemma build_model_rooms_cong:
  assumes "length rooms' = length rooms"
    and "\<And>ki. ki < length rooms \<Longrightarrow> id_room (rooms' ! ki) = id_room (rooms ! ki)"
  shows "build_model bo students rooms' restrictions rp =
         build_model bo students rooms restrictions rp"
  unfolding build_model_def
  by (simp add: assms(1) create_assignment_vars_rooms_cong [OF assms])

lemma extract_results_rooms_cong:
  assumes "length rooms' = length rooms"
    and "\<And>ki. ki < length rooms \<Longrightarrow> id_room (rooms' ! ki) = id_room (rooms ! ki)"
  shows "extract_results response x students rooms' rp =
         extract_results response x students rooms rp"
proof -
  have "student_assignments response x rooms' rp student =
        student_assignments response x rooms rp student" for student
    unfolding student_assignments_eq assms(1)
    by (rule arg_cong [where f = concat], rule map_cong)
       (simp_all add: seat_def assms(2) split: option.splits)
  then have "student_assignments response x rooms' rp = student_assignments response x rooms rp"
    by (rule ext)
  then show ?thesis
    by (simp add: extract_results_eq)
qed

lemma solve_rooms_cong:
  assumes ids: "map id_room rooms' = map id_room rooms"
    and pos: "map room_positions_of rooms' = map room_positions_of rooms"
  shows "solve bo solver students rooms' restrictions t =
         solve bo solver students rooms restrictions t"
proof -
  from ids have len: "length rooms' = length rooms"
    by (rule map_eq_imp_length_eq)
  have nth_id: "id_room (rooms' ! ki) = id_room (rooms ! ki)" if "ki < length rooms" for ki
    using that ids len by (metis nth_map)
  have lines: "map (\<lambda>room. RoomPositions (id_room room) (length (room_positions_of room))) rooms =
      map (\<lambda>(i, p). RoomPositions i (length p))
        (zip (map id_room rooms) (map room_positions_of rooms))" for rooms
    by (induction rooms) simp_all
  have pre: "precompute_positions rooms' = precompute_positions rooms"
    unfolding precompute_positions_eq lines ids pos ..
  show ?thesis
    unfolding solve_def pre
    by (simp only: len build_model_rooms_cong [OF len nth_id]
        extract_results_rooms_cong [OF len nth_id])
qed

lemma map_update_same:
  "ki < length xs \<Longrightarrow> f y = f (xs ! ki) \<Longrightarrow> map f (xs[ki := y]) = map f xs"
  by (simp add: list_eq_iff_nth_eq nth_list_update)

lemma capacity_without_room:
  assumes "ki < length rooms" and "room_positions_of (rooms ! ki) = []"
  shows "capacity rooms = capacity (take ki rooms @ drop (Suc ki) rooms)"
proof -
  from assms(1) have "rooms = take ki rooms @ rooms ! ki # drop (Suc ki) rooms"
    by (simp add: id_take_nth_drop)
  then have "capacity rooms = capacity (take ki rooms @ rooms ! ki # drop (Suc ki) rooms)"
    by simp
  also have "\<dots> = capacity (take ki rooms @ drop (Suc ki) rooms)"
    by (simp add: capacity_def assms(2))
  finally show ?thesis .
qed

text \<open>
  Claim C10. A room with \<open>rows \<le> 0\<close> or \<open>cols \<le> 0\<close> gets an empty position list (the
  list of position lists keeps one entry per room, so every index used by \<^verbatim>\<open>solve\<close>
  stays in range), adds nothing to the capacity, carries no decision variable, and
  \<^verbatim>\<open>solve\<close> behaves as on the input in which that room is a grid with no rows and
  no columns.
\<close>

theorem room_without_seats:
  assumes "ki < length rooms"
    and "rows (rooms ! ki) \<le> 0 \<or> cols (rooms ! ki) \<le> 0"
  shows "length (fst (precompute_positions rooms)) = length rooms
       \<and> fst (precompute_positions rooms) ! ki = []
       \<and> capacity rooms = capacity (take ki rooms @ drop (Suc ki) rooms)
       \<and> (\<forall>sid pos. x_vars (built_for bucket_order students rooms restrictions)
                        (var_key sid ki pos) = None)
       \<and> solve bucket_order solver students rooms restrictions timeout_seconds =
           solve bucket_order solver students
             (rooms[ki := (rooms ! ki)\<lparr>rows := 0, cols := 0\<rparr>]) restrictions timeout_seconds"
proof -
  let ?rooms' = "rooms[ki := (rooms ! ki)\<lparr>rows := 0, cols := 0\<rparr>]"
  from assms(2) have empty: "room_positions_of (rooms ! ki) = []"
    by (rule room_positions_of_no_seats)
  have empty': "room_positions_of ((rooms ! ki)\<lparr>rows := 0, cols := 0\<rparr>) = []"
    by (rule room_positions_of_no_seats) simp
  have ids: "map id_room ?rooms' = map id_room rooms"
    using assms(1) by (rule map_update_same) simp
  have pos: "map room_positions_of ?rooms' = map room_positions_of rooms"
    using assms(1) by (rule map_update_same) (simp only: empty empty')
  have none: "x_vars (built_for bucket_order students rooms restrictions) (var_key sid ki pos) = None"
    for sid pos
  proof -
    have "var_key sid ki pos \<notin> created_keys restrictions rooms (map room_positions_of rooms) students"
      using assms(1) empty by (auto simp: created_keys_def)
    then have "var_key sid ki pos \<notin>
        dom (x_vars (build_model bucket_order students rooms restrictions
               (map room_positions_of rooms)))"
      by (simp add: dom_x_vars)
    then show ?thesis
      by (simp add: built_for_def precompute_positions_eq domIff)
  qed
  from assms(1) empty none capacity_without_room [OF assms(1) empty]
    solve_rooms_cong [OF ids pos, symmetric]
  show ?thesis
    by (simp add: precompute_positions_eq)
qed

theorem room_without_seats_witness:
  "length (fst (precompute_positions negative_rows_rooms)) = length negative_rows_rooms
   \<and> fst (precompute_positions negative_rows_rooms) ! 0 = []
   \<and> capacity negative_rows_rooms =
       capacity (take 0 negative_rows_rooms @ drop (Suc 0) negative_rows_rooms)
   \<and> (\<forall>sid pos. x_vars (built_for id scenario_A_students negative_rows_rooms Map.empty)
                    (var_key sid 0 pos) = None)
   \<and> solve id (answering \<lparr>status = OPTIMAL, solution = \<lambda>v. v \<in> {1, 2, 7}\<rparr>)
         scenario_A_students negative_rows_rooms Map.empty 120 =
       solve id (answering \<lparr>status = OPTIMAL, solution = \<lambda>v. v \<in> {1, 2, 7}\<rparr>)
         scenario_A_students
         (negative_rows_rooms[0 := (negative_rows_rooms ! 0)\<lparr>rows := 0, cols := 0\<rparr>])
         Map.empty 120"
proof -
  have index: "0 < length negative_rows_rooms"
    by (simp add: negative_rows_rooms_def)
  have no_seats: "rows (negative_rows_rooms ! 0) \<le> 0 \<or> cols (negative_rows_rooms ! 0) \<le> 0"
    by (simp add: negative_rows_rooms_def)
  show ?thesis
    by (rule room_without_seats [OF index no_seats])
qed

lemma negative_rows_run:
  "returned (solve id (answering \<lparr>status = OPTIMAL, solution = \<lambda>v. v \<in> {1, 2, 7}\<rparr>)
         scenario_A_students negative_rows_rooms Map.empty 120) =
     [\<lparr>student_id = 0, room_id = ''R1'', row = 0, col = 0\<rparr>,
      \<lparr>student_id = 1, room_id = ''R1'', row = 0, col = 2\<rparr>]"
  by (simp add: solve_def build_eval solve_eval scenario_A_students_def negative_rows_rooms_def)

section \<open>Separation\<close>

text \<open>
  Claim C1 does not hold of the code. The separation loops pair the earlier student of
  an exam group at the earlier position with the later student at the later position
  only; the swapped placement gets no constraint. On scenario A (two students of one
  exam, one row of three seats) two separation constraints are emitted, far below the
  cap; the response that puts student 0 at \<open>(0, 1)\<close> and student 1 at \<open>(0, 0)\<close> is a
  solution of the built model with the least possible objective value, and \<^verbatim>\<open>solve\<close>
  returns these two adjacent seats.
\<close>

theorem separation_misses_swapped_pair:
  "separation_count (built_for id scenario_A_students scenario_A_rooms Map.empty) = 2
   \<and> solution_of (model (built_for id scenario_A_students scenario_A_rooms Map.empty))
        (\<lambda>v. v \<in> {0, 2, 4})
   \<and> \<not> (\<exists>v. solution_of (model (built_for id scenario_A_students scenario_A_rooms Map.empty)) v
            \<and> objective_value (model (built_for id scenario_A_students scenario_A_rooms
                  Map.empty)) v
              < objective_value (model (built_for id scenario_A_students scenario_A_rooms
                  Map.empty)) (\<lambda>v. v \<in> {0, 2, 4}))
   \<and> returned (solve id (answering \<lparr>status = OPTIMAL, solution = \<lambda>v. v \<in> {0, 2, 4}\<rparr>)
        scenario_A_students scenario_A_rooms Map.empty 120) =
      [\<lparr>student_id = 0, room_id = ''R1'', row = 0, col = 1\<rparr>,
       \<lparr>student_id = 1, room_id = ''R1'', row = 0, col = 0\<rparr>]
   \<and> is_adjacent (0, 1) (0, 0)"
proof -
  have m: "model (built_for id scenario_A_students scenario_A_rooms Map.empty) =
    \<lparr>num_vars = 7,
     constraints =
       [Equality (Sum [1, 2, 3]) (Const 1), Equality (Sum [4, 5, 6]) (Const 1),
        LessOrEqual (Var 1) (Var 0), LessOrEqual (Var 4) (Var 0),
        LessOrEqual (Sum [1, 4]) (Const 1),
        LessOrEqual (Var 2) (Var 0), LessOrEqual (Var 5) (Var 0),
        LessOrEqual (Sum [2, 5]) (Const 1),
        LessOrEqual (Var 3) (Var 0), LessOrEqual (Var 6) (Var 0),
        LessOrEqual (Sum [3, 6]) (Const 1),
        LessOrEqual (Sum [1, 5]) (Const 1), LessOrEqual (Sum [2, 6]) (Const 1)],
     objective = Some (Sum [0])\<rparr>"
    by (simp add: build_eval scenario_A_students_def scenario_A_rooms_def)
  have count: "separation_count (built_for id scenario_A_students scenario_A_rooms Map.empty) = 2"
    by (simp add: build_eval scenario_A_students_def scenario_A_rooms_def)
  have sol: "solution_of (model (built_for id scenario_A_students scenario_A_rooms Map.empty))
        (\<lambda>v. v \<in> {0, 2, 4})"
    unfolding m by (simp add: solution_of_def)
  have least: "\<not> (\<exists>v. solution_of (model (built_for id scenario_A_students scenario_A_rooms
                  Map.empty)) v
            \<and> objective_value (model (built_for id scenario_A_students scenario_A_rooms
                  Map.empty)) v
              < objective_value (model (built_for id scenario_A_students scenario_A_rooms
                  Map.empty)) (\<lambda>v. v \<in> {0, 2, 4}))"
    unfolding m by (auto simp: solution_of_def objective_value_def split: if_splits)
  have ret: "returned (solve id (answering \<lparr>status = OPTIMAL, solution = \<lambda>v. v \<in> {0, 2, 4}\<rparr>)
        scenario_A_students scenario_A_rooms Map.empty 120) =
      [\<lparr>student_id = 0, room_id = ''R1'', row = 0, col = 1\<rparr>,
       \<lparr>student_id = 1, room_id = ''R1'', row = 0, col = 0\<rparr>]"
    by (simp add: build_eval solve_eval scenario_A_students_def scenario_A_rooms_def)
  have adj: "is_adjacent (0, 1) (0, 0)"
    by (simp add: is_adjacent_def)
  from count sol least ret adj show ?thesis
    by blast
qed

section \<open>Order and cap of the separation constraints\<close>

lemma capped_Nil [simp]: "capped [] st = st"
  by (simp add: capped_def emit_def)

lemma snd_capped:
  "snd st \<le> MAX_SEPARATION_CONSTRAINTS \<Longrightarrow> snd (capped cs st) \<le> MAX_SEPARATION_CONSTRAINTS"
  by (simp add: capped_def emit_def)

lemma capped_at_cap:
  "snd st = MAX_SEPARATION_CONSTRAINTS \<Longrightarrow> capped cs st = st"
  by (cases st) (simp add: capped_def emit_def)

lemma capped_append:
  assumes "snd st \<le> MAX_SEPARATION_CONSTRAINTS"
  shows "capped (as @ bs) st = capped bs (capped as st)"
proof -
  let ?n = "nat (MAX_SEPARATION_CONSTRAINTS - snd st)"
  have rest: "nat (MAX_SEPARATION_CONSTRAINTS - (snd st + int (min (length as) ?n))) =
      ?n - length as"
    using assms by (auto simp: min_def)
  show ?thesis
    by (simp add: capped_def emit_def rest)
qed

lemma for_while_capped:
  assumes body: "\<And>i st. snd st < MAX_SEPARATION_CONSTRAINTS \<Longrightarrow> body i st = capped (g i) st"
    and "snd st \<le> MAX_SEPARATION_CONSTRAINTS"
  shows "for_while below_cap body is st = capped (concat (map g is)) st"
  using assms(2)
proof (induction "is" arbitrary: st)
  case Nil
  show ?case by simp
next
  case (Cons i "is")
  show ?case
  proof (cases "below_cap st")
    case True
    then have step: "body i st = capped (g i) st"
      by (simp add: below_cap_def body)
    from Cons.prems have "snd (capped (g i) st) \<le> MAX_SEPARATION_CONSTRAINTS"
      by (rule snd_capped)
    then have "for_while below_cap body is (capped (g i) st) =
        capped (concat (map g is)) (capped (g i) st)"
      by (rule Cons.IH)
    with True step Cons.prems show ?thesis
      by (simp add: capped_append)
  next
    case False
    with Cons.prems have "snd st = MAX_SEPARATION_CONSTRAINTS"
      by (simp add: below_cap_def)
    with False show ?thesis
      by (simp add: capped_at_cap)
  qed
qed

lemma fold_capped:
  assumes body: "\<And>i st. snd st \<le> MAX_SEPARATION_CONSTRAINTS \<Longrightarrow> body i st = capped (g i) st"
    and "snd st \<le> MAX_SEPARATION_CONSTRAINTS"
  shows "fold body is st = capped (concat (map g is)) st"
  using assms(2)
proof (induction "is" arbitrary: st)
  case Nil
  show ?case by simp
next
  case (Cons i "is")
  from Cons.prems have "snd (capped (g i) st) \<le> MAX_SEPARATION_CONSTRAINTS"
    by (rule snd_capped)
  then have "fold body is (capped (g i) st) = capped (concat (map g is)) (capped (g i) st)"
    by (rule Cons.IH)
  with Cons.prems show ?case
    by (simp add: body capped_append)
qed

lemma separation_pair_capped:
  assumes "snd st < MAX_SEPARATION_CONSTRAINTS"
  shows "separation_pair x ki pos_i pos_j studs si sj st =
     capped (case (x (var_key (studs ! si) ki pos_i), x (var_key (studs ! sj) ki pos_j)) of
               (Some var1, Some var2) \<Rightarrow> [LessOrEqual (Sum [var1, var2]) (Const 1)]
             | _ \<Rightarrow> []) st"
proof -
  from assms have "take (nat (MAX_SEPARATION_CONSTRAINTS - snd st)) [c] = [c]" for c :: Constraint
    by (cases "nat (MAX_SEPARATION_CONSTRAINTS - snd st)") simp_all
  then show ?thesis
    by (simp add: separation_pair_def capped_def emit_def AddLessOrEqual_def
        split: option.splits)
qed

lemma student_pairs_capped:
  assumes "snd st \<le> MAX_SEPARATION_CONSTRAINTS"
  shows "student_pairs x ki pos_i pos_j studs st =
         capped (pair_candidates x ki pos_i pos_j studs) st"
  unfolding student_pairs_def pair_candidates_def
  by (rule for_while_capped [OF _ assms], rule for_while_capped)
     (simp_all add: separation_pair_capped)

lemma position_pair_capped:
  assumes "snd st \<le> MAX_SEPARATION_CONSTRAINTS"
  shows "position_pair x ki positions studs i j st =
     capped (if is_adjacent (positions ! i) (positions ! j)
             then pair_candidates x ki (positions ! i) (positions ! j) studs else []) st"
  using assms by (simp add: position_pair_def student_pairs_capped)

lemma position_pairs_capped:
  assumes "snd st \<le> MAX_SEPARATION_CONSTRAINTS"
  shows "position_pairs x ki positions studs st = capped (room_candidates x ki positions studs) st"
  unfolding position_pairs_def room_candidates_def
  by (rule for_while_capped [OF _ assms], rule for_while_capped)
     (simp_all add: position_pair_capped)

lemma exam_group_constraints_capped:
  assumes "snd st \<le> MAX_SEPARATION_CONSTRAINTS"
  shows "exam_group_constraints x n rp exam_group st =
         capped (group_candidates x n rp exam_group) st"
proof (cases "length (snd exam_group) < 2")
  case True
  then show ?thesis
    by (simp add: exam_group_constraints_def group_candidates_def)
next
  case False
  have "fold (\<lambda>ki. position_pairs x ki (rp ! ki) (snd exam_group)) [0..<n] st =
        capped (concat (map (\<lambda>ki. room_candidates x ki (rp ! ki) (snd exam_group)) [0..<n])) st"
    by (rule fold_capped [OF _ assms]) (rule position_pairs_capped)
  with False show ?thesis
    by (simp add: exam_group_constraints_def group_candidates_def)
qed

lemma constraint3_eq:
  "constraint3 bo x n rp groups cp =
     (cp\<lparr>constraints := constraints cp @
           take 50000 (separation_candidates x n rp (bo groups))\<rparr>,
      int (length (take 50000 (separation_candidates x n rp (bo groups)))))"
proof -
  have "fold (exam_group_constraints x n rp) (bo groups) (cp, 0) =
        capped (concat (map (group_candidates x n rp) (bo groups))) (cp, 0)"
    by (rule fold_capped) (simp_all add: exam_group_constraints_capped
        MAX_SEPARATION_CONSTRAINTS_def)
  then show ?thesis
    by (simp add: constraint3_def separation_candidates_def capped_def emit_def
        MAX_SEPARATION_CONSTRAINTS_def)
qed

lemma build_model_separation:
  "constraints (model (build_model bo students rooms restrictions rp)) =
     constraints (model (build_model (\<lambda>groups. []) students rooms restrictions rp)) @
     take 50000 (separation_candidates
       (x_vars (build_model bo students rooms restrictions rp)) (length rooms) rp
       (bo (fst (exam_groupings students))))"
  by (simp add: build_model_def split_def Let_def constraint3_eq Minimize_def
      separation_candidates_def)

lemma separation_count_build_model:
  "separation_count (build_model bo students rooms restrictions rp) =
     int (length (take 50000 (separation_candidates
       (x_vars (build_model bo students rooms restrictions rp)) (length rooms) rp
       (bo (fst (exam_groupings students))))))"
  by (simp add: build_model_def split_def Let_def constraint3_eq)

lemma build_model_order_free:
  "x_vars (build_model bo students rooms restrictions rp) =
     x_vars (build_model bo' students rooms restrictions rp)"
  "y_vars (build_model bo students rooms restrictions rp) =
     y_vars (build_model bo' students rooms restrictions rp)"
  "variable_count (build_model bo students rooms restrictions rp) =
     variable_count (build_model bo' students rooms restrictions rp)"
  "num_vars (model (build_model bo students rooms restrictions rp)) =
     num_vars (model (build_model bo' students rooms restrictions rp))"
  "objective (model (build_model bo students rooms restrictions rp)) =
     objective (model (build_model bo' students rooms restrictions rp))"
  by (simp_all add: build_model_def split_def Let_def constraint3_eq Minimize_def)

lemma solved_solver_free:
  "solved (solve bo solver students rooms restrictions t) =
   solved (solve bo solver' students rooms restrictions t')"
  by (cases "not_enough_capacity (total_capacity_of (map room_positions_of rooms)) students")
     (simp_all add: solve_not_enough solve_enough Let_def)

lemma solved_eq:
  "solved (solve bo solver students rooms restrictions t) =
     (if not_enough_capacity (total_capacity_of (fst (precompute_positions rooms))) students
      then None else Some (model (built_for bo students rooms restrictions)))"
  by (cases "not_enough_capacity (total_capacity_of (map room_positions_of rooms)) students")
     (simp_all add: solve_not_enough solve_enough Let_def precompute_positions_eq)

text \<open>
  Claim C5, as amended. A run that passes the capacity check hands the model built for
  its input to the solver, and a run that fails it hands over none; so the model handed
  to the solver is the same for any two runs on the same input, whatever the solver
  answers and whatever the timeout. Variables, the objective and the constraints that
  precede the separation loop do not depend on the iteration order of the exam
  container either. The separation constraints are the first 50 000 of the candidates
  enumerated by exam group in the container's iteration order, then by room, adjacent
  position pair and student pair in ascending index order; their number is the printed
  separation count.
\<close>

theorem model_construction_order:
  "solved (solve bucket_order solver students rooms restrictions timeout_seconds) =
     (if not_enough_capacity (total_capacity_of (fst (precompute_positions rooms))) students
      then None else Some (model (built_for bucket_order students rooms restrictions)))
   \<and> solved (solve bucket_order solver students rooms restrictions timeout_seconds) =
       solved (solve bucket_order solver' students rooms restrictions timeout_seconds')
   \<and> (\<exists>pre. \<forall>order.
        constraints (model (built_for order students rooms restrictions)) =
          pre @ take 50000 (separation_candidates
                  (x_vars (built_for bucket_order students rooms restrictions))
                  (length rooms) (fst (precompute_positions rooms))
                  (order (fst (exam_groupings students))))
        \<and> separation_count (built_for order students rooms restrictions) =
            int (length (take 50000 (separation_candidates
                  (x_vars (built_for bucket_order students rooms restrictions))
                  (length rooms) (fst (precompute_positions rooms))
                  (order (fst (exam_groupings students))))))
        \<and> x_vars (built_for order students rooms restrictions) =
            x_vars (built_for bucket_order students rooms restrictions)
        \<and> y_vars (built_for order students rooms restrictions) =
            y_vars (built_for bucket_order students rooms restrictions)
        \<and> num_vars (model (built_for order students rooms restrictions)) =
            num_vars (model (built_for bucket_order students rooms restrictions))
        \<and> objective (model (built_for order students rooms restrictions)) =
            objective (model (built_for bucket_order students rooms restrictions)))"
proof -
  let ?rp = "fst (precompute_positions rooms)"
  let ?pre = "constraints (model (build_model (\<lambda>groups. []) students rooms restrictions ?rp))"
  let ?x = "x_vars (built_for bucket_order students rooms restrictions)"
  have x: "x_vars (built_for order students rooms restrictions) = ?x" for order
    unfolding built_for_def by (rule build_model_order_free)
  have xb: "x_vars (build_model bucket_order students rooms restrictions ?rp) =
      x_vars (build_model order students rooms restrictions ?rp)" for order
    by (rule build_model_order_free)
  have c: "constraints (model (built_for order students rooms restrictions)) =
      ?pre @ take 50000 (separation_candidates ?x (length rooms) ?rp
                (order (fst (exam_groupings students))))" for order
    unfolding built_for_def xb [of order] by (rule build_model_separation)
  have n: "separation_count (built_for order students rooms restrictions) =
      int (length (take 50000 (separation_candidates ?x (length rooms) ?rp
                (order (fst (exam_groupings students))))))" for order
    unfolding built_for_def xb [of order] by (rule separation_count_build_model)
  have y: "y_vars (built_for order students rooms restrictions) =
      y_vars (built_for bucket_order students rooms restrictions)" for order
    unfolding built_for_def by (rule build_model_order_free)
  have v: "num_vars (model (built_for order students rooms restrictions)) =
      num_vars (model (built_for bucket_order students rooms restrictions))" for order
    unfolding built_for_def by (rule build_model_order_free)
  have ob: "objective (model (built_for order students rooms restrictions)) =
      objective (model (built_for bucket_order students rooms restrictions))" for order
    unfolding built_for_def by (rule build_model_order_free)
  show ?thesis
  proof (intro conjI)
    show "solved (solve bucket_order solver students rooms restrictions timeout_seconds) =
       (if not_enough_capacity (total_capacity_of ?rp) students
        then None else Some (model (built_for bucket_order students rooms restrictions)))"
      by (rule solved_eq)
    show "solved (solve bucket_order solver students rooms restrictions timeout_seconds) =
          solved (solve bucket_order solver' students rooms restrictions timeout_seconds')"
      by (rule solved_solver_free)
    show "\<exists>pre. \<forall>order.
        constraints (model (built_for order students rooms restrictions)) =
          pre @ take 50000 (separation_candidates ?x (length rooms) ?rp
                  (order (fst (exam_groupings students))))
        \<and> separation_count (built_for order students rooms restrictions) =
            int (length (take 50000 (separation_candidates ?x (length rooms) ?rp
                  (order (fst (exam_groupings students))))))
        \<and> x_vars (built_for order students rooms restrictions) = ?x
        \<and> y_vars (built_for order students rooms restrictions) =
            y_vars (built_for bucket_order students rooms restrictions)
        \<and> num_vars (model (built_for order students rooms restrictions)) =
            num_vars (model (built_for bucket_order students rooms restrictions))
        \<and> objective (model (built_for order students rooms restrictions)) =
            objective (model (built_for bucket_order students rooms restrictions))"
    proof (rule exI [where x = ?pre], intro allI conjI)
      fix order
      show "constraints (model (built_for order students rooms restrictions)) =
          ?pre @ take 50000 (separation_candidates ?x (length rooms) ?rp
                  (order (fst (exam_groupings students))))"
        by (rule c)
      show "separation_count (built_for order students rooms restrictions) =
            int (length (take 50000 (separation_candidates ?x (length rooms) ?rp
                  (order (fst (exam_groupings students))))))"
        by (rule n)
      show "x_vars (built_for order students rooms restrictions) = ?x"
        by (rule x)
      show "y_vars (built_for order students rooms restrictions) =
            y_vars (built_for bucket_order students rooms restrictions)"
        by (rule y)
      show "num_vars (model (built_for order students rooms restrictions)) =
            num_vars (model (built_for bucket_order students rooms restrictions))"
        by (rule v)
      show "objective (model (built_for order students rooms restrictions)) =
            objective (model (built_for bucket_order students rooms restrictions))"
        by (rule ob)
    qed
  qed
qed

lemma two_exam_enough:
  "\<not> not_enough_capacity (total_capacity_of (fst (precompute_positions two_exam_rooms)))
       two_exam_students"
  by (simp add: build_eval solve_eval two_exam_students_def two_exam_rooms_def)

lemma two_exam_candidates_rev:
  "separation_candidates
        (x_vars (built_for rev two_exam_students two_exam_rooms Map.empty))
        (length two_exam_rooms) (fst (precompute_positions two_exam_rooms))
        (rev (fst (exam_groupings two_exam_students))) =
      [LessOrEqual (Sum [9, 15]) (Const 1), LessOrEqual (Sum [10, 16]) (Const 1),
       LessOrEqual (Sum [1, 7]) (Const 1), LessOrEqual (Sum [2, 8]) (Const 1)]"
  by (simp add: separation_candidates_def group_candidates_def room_candidates_def
      pair_candidates_def build_eval two_exam_students_def two_exam_rooms_def)

theorem model_construction_order_witness:
  "solved (solve rev (answering \<lparr>status = OPTIMAL, solution = \<lambda>v. v \<in> {0, 1, 6, 11, 16}\<rparr>)
      two_exam_students two_exam_rooms Map.empty 120) =
     Some (model (built_for rev two_exam_students two_exam_rooms Map.empty))
   \<and> solved (solve rev (answering \<lparr>status = UNKNOWN, solution = \<lambda>v. False\<rparr>)
      two_exam_students two_exam_rooms Map.empty 1) =
     Some (model (built_for rev two_exam_students two_exam_rooms Map.empty))
   \<and> separation_count (built_for rev two_exam_students two_exam_rooms Map.empty) = 4"
proof -
  define solver where
    "solver = answering \<lparr>status = OPTIMAL, solution = \<lambda>v. v \<in> {0, 1, 6, 11, 16}\<rparr>"
  define solver' where "solver' = answering \<lparr>status = UNKNOWN, solution = \<lambda>v. False\<rparr>"
  from model_construction_order [of rev solver two_exam_students two_exam_rooms Map.empty 120
      solver' 1]
  have handed: "solved (solve rev solver two_exam_students two_exam_rooms Map.empty 120) =
      (if not_enough_capacity (total_capacity_of (fst (precompute_positions two_exam_rooms)))
            two_exam_students
       then None else Some (model (built_for rev two_exam_students two_exam_rooms Map.empty)))"
    and same: "solved (solve rev solver two_exam_students two_exam_rooms Map.empty 120) =
      solved (solve rev solver' two_exam_students two_exam_rooms Map.empty 1)"
    and count: "separation_count (built_for rev two_exam_students two_exam_rooms Map.empty) =
      int (length (take 50000 (separation_candidates
        (x_vars (built_for rev two_exam_students two_exam_rooms Map.empty))
        (length two_exam_rooms) (fst (precompute_positions two_exam_rooms))
        (rev (fst (exam_groupings two_exam_students))))))"
    by blast+
  from handed two_exam_enough
  have first: "solved (solve rev solver two_exam_students two_exam_rooms Map.empty 120) =
      Some (model (built_for rev two_exam_students two_exam_rooms Map.empty))"
    by simp
  with same
  have second: "solved (solve rev solver' two_exam_students two_exam_rooms Map.empty 1) =
      Some (model (built_for rev two_exam_students two_exam_rooms Map.empty))"
    by simp
  from count have third:
    "separation_count (built_for rev two_exam_students two_exam_rooms Map.empty) = 4"
    unfolding two_exam_candidates_rev by simp
  from first second third show ?thesis
    unfolding solver_def solver'_def by blast
qed

text \<open>
  Claim C5 as stated fails in its account of the order. The four students fit the four
  seats, so the run passes the capacity check and hands the built model to the solver.
  The students' exams are inserted in the order \<open>a\<close>, \<open>b\<close>, and the candidates in that
  order begin with the two constraints of exam \<open>a\<close>; when the container iterates in the
  reverse of the insertion order (as a chained hash table does that links each new node
  at the front of its list), the separation constraints of the model handed to the
  solver (those after the twenty-four assignment, linking and capacity constraints)
  begin with the two constraints of exam \<open>b\<close>.
\<close>

theorem model_construction_order_counterexample:
  "fst (exam_groupings two_exam_students) = [(''a'', [0, 1]), (''b'', [2, 3])]
   \<and> solved (solve rev (answering \<lparr>status = UNKNOWN, solution = \<lambda>v. False\<rparr>)
        two_exam_students two_exam_rooms Map.empty 120) =
      Some (model (built_for rev two_exam_students two_exam_rooms Map.empty))
   \<and> take 50000 (separation_candidates
        (x_vars (built_for rev two_exam_students two_exam_rooms Map.empty))
        (length two_exam_rooms) (fst (precompute_positions two_exam_rooms))
        (fst (exam_groupings two_exam_students))) =
      [LessOrEqual (Sum [1, 7]) (Const 1), LessOrEqual (Sum [2, 8]) (Const 1),
       LessOrEqual (Sum [9, 15]) (Const 1), LessOrEqual (Sum [10, 16]) (Const 1)]
   \<and> drop 24 (constraints (model (built_for rev two_exam_students two_exam_rooms Map.empty))) =
      [LessOrEqual (Sum [9, 15]) (Const 1), LessOrEqual (Sum [10, 16]) (Const 1),
       LessOrEqual (Sum [1, 7]) (Const 1), LessOrEqual (Sum [2, 8]) (Const 1)]"
proof -
  have groups: "fst (exam_groupings two_exam_students) = [(''a'', [0, 1]), (''b'', [2, 3])]"
    by (simp add: exam_groupings_def two_exam_students_def)
  have handed: "solved (solve rev (answering \<lparr>status = UNKNOWN, solution = \<lambda>v. False\<rparr>)
        two_exam_students two_exam_rooms Map.empty 120) =
      Some (model (built_for rev two_exam_students two_exam_rooms Map.empty))"
    using two_exam_enough by (simp add: solved_eq)
  have ascending: "take 50000 (separation_candidates
        (x_vars (built_for rev two_exam_students two_exam_rooms Map.empty))
        (length two_exam_rooms) (fst (precompute_positions two_exam_rooms))
        (fst (exam_groupings two_exam_students))) =
      [LessOrEqual (Sum [1, 7]) (Const 1), LessOrEqual (Sum [2, 8]) (Const 1),
       LessOrEqual (Sum [9, 15]) (Const 1), LessOrEqual (Sum [10, 16]) (Const 1)]"
    by (simp add: separation_candidates_def group_candidates_def room_candidates_def
        pair_candidates_def build_eval two_exam_students_def two_exam_rooms_def)
  have emitted: "drop 24 (constraints (model (built_for rev two_exam_students two_exam_rooms
        Map.empty))) =
      [LessOrEqual (Sum [9, 15]) (Const 1), LessOrEqual (Sum [10, 16]) (Const 1),
       LessOrEqual (Sum [1, 7]) (Const 1), LessOrEqual (Sum [2, 8]) (Const 1)]"
    by (simp add: build_eval two_exam_students_def two_exam_rooms_def)
  from groups handed ascending emitted show ?thesis
    by blast
qed

section \<open>Diagnostics and the cap\<close>
















end
